theory Spec2Isabelle
  imports Complex_Main
begin

section \<open>Geometry helpers of the route-proximity filter\<close>

text \<open>
  The client computes with JavaScript numbers. The geometry is modelled twice: first
  the formulas in exact real arithmetic, where \<open>Math.cos\<close>, \<open>Math.sqrt\<close> and
  \<open>Math.PI\<close> are the functions \<open>cos\<close>, \<open>sqrt\<close> and the constant \<open>pi\<close> of the reals;
  then, further down, the same computation with the rounding of IEEE doubles.
  A geographic point is the object \<open>{lat, lng}\<close> of the source, in degrees.
\<close>

record latlng =
  lat :: real
  lng :: real

definition toRad :: "real \<Rightarrow> real" where
  "toRad x = x * pi / 180"

text \<open>The two scale factors computed at the head of \<open>distPointToSegmentMeters\<close>.\<close>

definition mPerDegLat :: "real \<Rightarrow> real" where
  "mPerDegLat lat0 = 111132.92 - 559.82 * cos (2 * lat0) + 1.175 * cos (4 * lat0)"

definition mPerDegLng :: "real \<Rightarrow> real" where
  "mPerDegLng lat0 = 111412.84 * cos lat0 - 93.5 * cos (3 * lat0)"

text \<open>
  Distance from point \<open>p\<close> to the segment \<open>v\<close>--\<open>w\<close> in metres, in the local
  equirectangular projection anchored at the midpoint latitude of the segment.
\<close>

definition distPointToSegmentMeters :: "latlng \<Rightarrow> latlng \<Rightarrow> latlng \<Rightarrow> real" where
  "distPointToSegmentMeters p v w =
     (let lat0 = toRad ((lat v + lat w) / 2);
          vx = (lng w - lng v) * mPerDegLng lat0;
          vy = (lat w - lat v) * mPerDegLat lat0;
          px = (lng p - lng v) * mPerDegLng lat0;
          py = (lat p - lat v) * mPerDegLat lat0;
          segLen2 = vx * vx + vy * vy
      in if segLen2 = 0 then sqrt (px * px + py * py)
         else
           (let t0 = (px * vx + py * vy) / segLen2;
                t = max 0 (min 1 t0);
                projx = vx * t; projy = vy * t;
                dx = px - projx; dy = py - projy
            in sqrt (dx * dx + dy * dy)))"

subsection \<open>Minimum distance to the polyline, with the quick exit\<close>

text \<open>
  The running minimum starts as \<open>Infinity\<close>, which is not a distance: the type
  \<open>jsnum\<close> adds it to the reals. \<open>num_lt d m\<close> is the test \<open>d < min\<close> of the loop and
  \<open>num_le m b\<close> the test \<open>min <= this.routeBufferMeters\<close>.
\<close>

datatype jsnum = Fin real | Infinity

fun num_lt :: "real \<Rightarrow> jsnum \<Rightarrow> bool" where
  "num_lt d Infinity = True"
| "num_lt d (Fin m) = (d < m)"

fun num_le :: "jsnum \<Rightarrow> real \<Rightarrow> bool" where
  "num_le Infinity b = False"
| "num_le (Fin m) b = (m \<le> b)"

text \<open>The statement \<open>if (d < min) min = d\<close>.\<close>

definition minStep :: "real \<Rightarrow> jsnum \<Rightarrow> jsnum" where
  "minStep d mn = (if num_lt d mn then Fin d else mn)"

text \<open>
  The \<open>for\<close> loop of \<open>minDistanceToPolylineMeters\<close> from index \<open>i\<close> on, with the
  running minimum \<open>mn\<close>; \<open>buf\<close> is \<open>this.routeBufferMeters\<close>. The loop condition
  \<open>i < path.length - 1\<close> is written \<open>i + 1 < length path\<close>, which is the same test and
  is false for an empty path.
\<close>

function minDistanceLoop :: "real \<Rightarrow> latlng \<Rightarrow> latlng list \<Rightarrow> nat \<Rightarrow> jsnum \<Rightarrow> jsnum" where
  "minDistanceLoop buf p path i mn =
     (if i + 1 < length path then
        (let v = path ! i; w = path ! (i + 1);
             d = distPointToSegmentMeters p v w;
             mn' = minStep d mn
         in if num_le mn' buf then mn' else minDistanceLoop buf p path (i + 1) mn')
      else mn)"
  by pat_completeness auto
termination
  by (relation "measure (\<lambda>(buf, p, path, i, mn). length path - i)") auto

declare minDistanceLoop.simps [simp del]

definition minDistanceToPolylineMeters :: "real \<Rightarrow> latlng \<Rightarrow> latlng list \<Rightarrow> jsnum" where
  "minDistanceToPolylineMeters buf p path = minDistanceLoop buf p path 0 Infinity"

text \<open>
  The reference of the specification: the same scan over every segment of the path, with
  no quick exit, so that its result is the minimum over all segments.
\<close>

definition minDistanceReference :: "latlng \<Rightarrow> latlng list \<Rightarrow> jsnum" where
  "minDistanceReference p path =
     foldl (\<lambda>mn i. minStep (distPointToSegmentMeters p (path ! i) (path ! (i + 1))) mn)
       Infinity [0..<length path - 1]"

text \<open>
  The specification's notion of a point lying on a segment, in the same local projection:
  the projected point is \<open>v + s (w - v)\<close> for some \<open>s\<close> between 0 and 1.
\<close>

definition onSegmentProjected :: "latlng \<Rightarrow> latlng \<Rightarrow> latlng \<Rightarrow> bool" where
  "onSegmentProjected p v w =
     (let lat0 = toRad ((lat v + lat w) / 2);
          vx = (lng w - lng v) * mPerDegLng lat0;
          vy = (lat w - lat v) * mPerDegLat lat0;
          px = (lng p - lng v) * mPerDegLng lat0;
          py = (lat p - lat v) * mPerDegLat lat0
      in \<exists>s. 0 \<le> s \<and> s \<le> 1 \<and> px = s * vx \<and> py = s * vy)"

subsection \<open>The same computation in double precision\<close>

text \<open>
  JavaScript numbers are IEEE 754 doubles. Near a real \<open>x\<close> with binary exponent \<open>e\<close>
  the doubles are the integer multiples of \<open>2^(e - 52)\<close>; below \<open>2^(-1022)\<close> they are
  the multiples of \<open>2^(-1074)\<close>. \<open>roundDouble x\<close> is the double nearest to \<open>x\<close>, a tie
  going to the even multiple. Results beyond the largest double (\<open>Infinity\<close>, \<open>NaN\<close>)
  are not represented: the model describes the computation as long as every
  intermediate result is finite.
\<close>

definition roundHalfEven :: "real \<Rightarrow> int" where
  "roundHalfEven y =
     (let f = \<lfloor>y\<rfloor>; r = y - of_int f
      in if r < 1 / 2 then f else if 1 / 2 < r then f + 1 else if even f then f else f + 1)"

definition binade :: "real \<Rightarrow> int" where
  "binade x = max \<lfloor>log 2 \<bar>x\<bar>\<rfloor> (- 1022)"

definition ulp :: "real \<Rightarrow> real" where
  "ulp x = 2 powr of_int (binade x - 52)"

definition roundDouble :: "real \<Rightarrow> real" where
  "roundDouble x = ulp x * of_int (roundHalfEven (x / ulp x))"

text \<open>
  Each operation of the source is the exact operation followed by rounding, and a
  decimal literal stands for its nearest double. \<open>Math.sqrt\<close> is correctly rounded;
  \<open>Math.cos\<close> is taken as correctly rounded too, which gives \<open>Math.cos(0) = 1\<close> as
  ECMAScript requires (elsewhere an implementation may differ in the last place).
\<close>

definition fadd :: "real \<Rightarrow> real \<Rightarrow> real" where
  "fadd a b = roundDouble (a + b)"

definition fsub :: "real \<Rightarrow> real \<Rightarrow> real" where
  "fsub a b = roundDouble (a - b)"

definition fmul :: "real \<Rightarrow> real \<Rightarrow> real" where
  "fmul a b = roundDouble (a * b)"

definition fdiv :: "real \<Rightarrow> real \<Rightarrow> real" where
  "fdiv a b = roundDouble (a / b)"

definition Math_PI :: real where
  "Math_PI = roundDouble pi"

definition Math_cos :: "real \<Rightarrow> real" where
  "Math_cos x = roundDouble (cos x)"

definition Math_sqrt :: "real \<Rightarrow> real" where
  "Math_sqrt x = roundDouble (sqrt x)"

definition toRadDouble :: "real \<Rightarrow> real" where
  "toRadDouble x = fdiv (fmul x Math_PI) 180"

definition mPerDegLatDouble :: "real \<Rightarrow> real" where
  "mPerDegLatDouble lat0 =
     fadd (fsub (roundDouble 111132.92) (fmul (roundDouble 559.82) (Math_cos (fmul 2 lat0))))
          (fmul (roundDouble 1.175) (Math_cos (fmul 4 lat0)))"

definition mPerDegLngDouble :: "real \<Rightarrow> real" where
  "mPerDegLngDouble lat0 =
     fsub (fmul (roundDouble 111412.84) (Math_cos lat0))
          (fmul (roundDouble 93.5) (Math_cos (fmul 3 lat0)))"

text \<open>
  \<open>distPointToSegmentMeters\<close> of the source, operation by operation, on doubles. The
  coordinates of the three points are doubles.
\<close>

definition distPointToSegmentDouble :: "latlng \<Rightarrow> latlng \<Rightarrow> latlng \<Rightarrow> real" where
  "distPointToSegmentDouble p v w =
     (let lat0 = toRadDouble (fdiv (fadd (lat v) (lat w)) 2);
          vx = fmul (fsub (lng w) (lng v)) (mPerDegLngDouble lat0);
          vy = fmul (fsub (lat w) (lat v)) (mPerDegLatDouble lat0);
          px = fmul (fsub (lng p) (lng v)) (mPerDegLngDouble lat0);
          py = fmul (fsub (lat p) (lat v)) (mPerDegLatDouble lat0);
          segLen2 = fadd (fmul vx vx) (fmul vy vy)
      in if segLen2 = 0 then Math_sqrt (fadd (fmul px px) (fmul py py))
         else
           (let t0 = fdiv (fadd (fmul px vx) (fmul py vy)) segLen2;
                t = max 0 (min 1 t0);
                projx = fmul vx t; projy = fmul vy t;
                dx = fsub px projx; dy = fsub py projy
            in Math_sqrt (fadd (fmul dx dx) (fmul dy dy))))"

section \<open>The client application state\<close>

text \<open>
  A review as the server returns it. The timestamp is kept as the instant that
  \<open>new Date(r.timestamp)\<close> yields, in milliseconds; ratings are JavaScript numbers.
\<close>

record review = latlng +
  rid :: string
  safetyRating :: real
  infrastructureRating :: real
  description :: string
  address :: "string option"
  timestamp :: int

text \<open>A halo circle drawn for an on-route review (its fixed styling is left out).\<close>

record circle =
  center :: latlng
  radius :: real

text \<open>
  The source keeps no mode variable: the mode is which of the three dashboard routines
  wrote the four tiles last. The field \<open>mode\<close> of the state records exactly that.
\<close>

datatype dashboardMode = Overall | RouteOnly | Empty

text \<open>
  The fields of \<open>SafetyMapApp\<close> that the data flow of reviews, route and dashboard uses.
  \<open>hasMap\<close> says that \<open>this.map\<close> is set; \<open>tiles\<close> is the text content of the page's
  elements by id (an id outside its domain is an element that does not exist);
  \<open>notifications\<close> is the sequence of calls of \<open>showNotification\<close>. Review markers, the
  heat map and the recent-reviews list are rendering only and are not part of the state.
  \<open>routeOverlays\<close> holds the halos on the map: a circle is created on the map and is
  taken off it only by the \<open>setMap(null)\<close> that precedes emptying the list.
\<close>

record app =
  hasMap :: bool
  reviews :: "review list"
  selectedLocation :: "latlng option"
  currentReviewId :: "string option"
  isReviewMode :: bool
  routePath :: "latlng list"
  routeActive :: bool
  routeBufferMeters :: real
  routeOverlays :: "circle list"
  routeCountBadge :: "string option"
  routeFiltered :: "review list"
  tiles :: "string \<rightharpoonup> string"
  mode :: dashboardMode
  notifications :: "(string \<times> string) list"

subsection \<open>Number formatting\<close>

text \<open>The decimal digit for a number below ten.\<close>

definition digitChar :: "nat \<Rightarrow> char" where
  "digitChar n = ''0123456789'' ! n"

text \<open>\<open>String(n)\<close> and \<open>n.toString()\<close> for a non-negative integer.\<close>

fun natToString :: "nat \<Rightarrow> string" where
  "natToString n =
     (if n < 10 then [digitChar n] else natToString (n div 10) @ [digitChar (n mod 10)])"

declare natToString.simps [simp del]

text \<open>
  \<open>x.toFixed(1)\<close> for a double \<open>x\<close>: the sign, then the integer \<open>n\<close> with \<open>n / 10\<close>
  nearest to the magnitude (the larger one on a tie), printed with one decimal. (Above
  \<open>10^21\<close> JavaScript switches to exponent notation; averages of ratings are far below.)
\<close>

definition toFixed1 :: "real \<Rightarrow> string" where
  "toFixed1 x =
     (let n = nat \<lfloor>\<bar>x\<bar> * 10 + 1 / 2\<rfloor>
      in (if x < 0 then ''-'' else '''') @ natToString (n div 10) @ ''.'' @ natToString (n mod 10))"

subsection \<open>Dashboard (3 modes)\<close>

definition setStat :: "string \<Rightarrow> string \<Rightarrow> app \<Rightarrow> app" where
  "setStat i v s =
     (case tiles s i of None \<Rightarrow> s | Some old \<Rightarrow> s\<lparr>tiles := (tiles s)(i \<mapsto> v)\<rparr>)"

definition showNotification :: "string \<Rightarrow> string \<Rightarrow> app \<Rightarrow> app" where
  "showNotification message type s = s\<lparr>notifications := notifications s @ [(message, type)]\<rparr>"

text \<open>
  \<open>weekAgo\<close> is the instant seven days before the evaluation, which the source takes
  from the clock. The averages are computed in doubles: the sum by \<open>reduce\<close>, then the
  division by the count.
\<close>

definition updateDashboardOverall :: "int \<Rightarrow> app \<Rightarrow> app" where
  "updateDashboardOverall weekAgo s =
     (let total = length (reviews s);
          avgSafety = (if total \<noteq> 0
             then toFixed1 (fdiv (foldl (\<lambda>a r. fadd a (safetyRating r)) 0 (reviews s)) (real total))
             else '''');
          avgInfra = (if total \<noteq> 0
             then toFixed1 (fdiv (foldl (\<lambda>a r. fadd a (infrastructureRating r)) 0 (reviews s)) (real total))
             else '''');
          recent = (if total \<noteq> 0
             then natToString (length (filter (\<lambda>r. timestamp r > weekAgo) (reviews s)))
             else '''')
      in setStat ''recentReviews'' recent
          (setStat ''avgInfra'' avgInfra
            (setStat ''avgSafety'' avgSafety
              (setStat ''totalReviews'' (if total \<noteq> 0 then natToString total else '''')
                (s\<lparr>mode := Overall\<rparr>)))))"

definition updateDashboardEmpty :: "app \<Rightarrow> app" where
  "updateDashboardEmpty s =
     setStat ''recentReviews'' ''''
       (setStat ''avgInfra'' ''''
         (setStat ''avgSafety'' ''''
           (setStat ''totalReviews'' '''' (s\<lparr>mode := Empty\<rparr>))))"

definition updateDashboardRouteOnly :: "int \<Rightarrow> app \<Rightarrow> app" where
  "updateDashboardRouteOnly weekAgo s =
     (if routeFiltered s = [] then
        (let s1 = updateDashboardEmpty s
         in s1\<lparr>routeCountBadge := map_option (\<lambda>b. ''Route reviews: 0'') (routeCountBadge s1)\<rparr>)
      else
        (let list = routeFiltered s;
             total = length list;
             avgSafety = toFixed1 (fdiv (foldl (\<lambda>a r. fadd a (safetyRating r)) 0 list) (real total));
             avgInfra =
               toFixed1 (fdiv (foldl (\<lambda>a r. fadd a (infrastructureRating r)) 0 list) (real total));
             recent = natToString (length (filter (\<lambda>r. timestamp r > weekAgo) list))
         in setStat ''recentReviews'' recent
             (setStat ''avgInfra'' avgInfra
               (setStat ''avgSafety'' avgSafety
                 (setStat ''totalReviews'' (natToString total) (s\<lparr>mode := RouteOnly\<rparr>))))))"

subsection \<open>Route actions\<close>

text \<open>
  The classification made in \<open>countReviewsAlongRoute\<close>: a review is on-route when
  \<open>dMeters <= this.routeBufferMeters\<close>.
\<close>

definition onRoute :: "real \<Rightarrow> latlng list \<Rightarrow> review \<Rightarrow> bool" where
  "onRoute buf path r =
     num_le (minDistanceToPolylineMeters buf \<lparr>lat = lat r, lng = lng r\<rparr> path) buf"

text \<open>The halo drawn for an on-route review.\<close>

definition halo :: "real \<Rightarrow> review \<Rightarrow> circle" where
  "halo buf r = \<lparr>center = \<lparr>lat = lat r, lng = lng r\<rparr>, radius = max 30 (buf / 6)\<rparr>"

text \<open>The body of the loop over \<open>this.reviews\<close> in \<open>countReviewsAlongRoute\<close>.\<close>

definition countStep :: "app \<Rightarrow> review \<Rightarrow> app" where
  "countStep s r =
     (let p = \<lparr>lat = lat r, lng = lng r\<rparr>;
          dMeters = minDistanceToPolylineMeters (routeBufferMeters s) p (routePath s)
      in if num_le dMeters (routeBufferMeters s) then
           s\<lparr>routeFiltered := routeFiltered s @ [r],
             routeOverlays := routeOverlays s
               @ [\<lparr>center = p, radius = max 30 (routeBufferMeters s / 6)\<rparr>]\<rparr>
         else s)"

text \<open>Builds the cache, draws the halos and returns the count.\<close>

definition countReviewsAlongRoute :: "app \<Rightarrow> nat \<times> app" where
  "countReviewsAlongRoute s =
     (let s1 = s\<lparr>routeFiltered := []\<rparr>
      in if length (routePath s1) < 2 then (0, s1)
         else
           (let s2 = s1\<lparr>routeOverlays := []\<rparr>;
                s3 = foldl countStep s2 (reviews s2)
            in (length (routeFiltered s3), s3)))"

text \<open>
  The answer of the routing provider: its status string and the \<open>overview_path\<close> of the
  first route, which may be missing.
\<close>

datatype routeResponse = RouteResponse string "latlng list option"

text \<open>\<open>origin\<close> and \<open>destination\<close> are the two input fields after \<open>trim()\<close>.\<close>

definition findRoute :: "int \<Rightarrow> string \<Rightarrow> string \<Rightarrow> routeResponse \<Rightarrow> app \<Rightarrow> app" where
  "findRoute weekAgo origin destination resp s =
     (if origin = [] \<or> destination = [] then
        showNotification ''Please enter both origin and destination.'' ''warning'' s
      else
        (case resp of RouteResponse status overview_path \<Rightarrow>
           if status \<noteq> ''OK'' then showNotification (''Route failed: '' @ status) ''error'' s
           else
             (let s1 = s\<lparr>routePath := (case overview_path of None \<Rightarrow> [] | Some path \<Rightarrow> path),
                        routeActive := True\<rparr>;
                  (count, s2) = countReviewsAlongRoute s1;
                  s3 = s2\<lparr>routeCountBadge :=
                         map_option (\<lambda>b. ''Route reviews: '' @ natToString count)
                           (routeCountBadge s2)\<rparr>
              in updateDashboardRouteOnly weekAgo s3)))"

definition clearRoute :: "int \<Rightarrow> app \<Rightarrow> app" where
  "clearRoute weekAgo s =
     updateDashboardOverall weekAgo
       (s\<lparr>routePath := [], routeActive := False, routeFiltered := [],
          routeCountBadge := map_option (\<lambda>b. ''Route reviews: 0'') (routeCountBadge s),
          routeOverlays := []\<rparr>)"

text \<open>
  The refresh that follows every change of the review list: re-filter and show the
  route dashboard when a route is active, the overall dashboard otherwise.
\<close>

definition refreshDashboard :: "int \<Rightarrow> app \<Rightarrow> app" where
  "refreshDashboard weekAgo s =
     (if routeActive s \<and> routePath s \<noteq> [] then
        updateDashboardRouteOnly weekAgo (snd (countReviewsAlongRoute s))
      else updateDashboardOverall weekAgo s)"

subsection \<open>Data I/O\<close>

text \<open>
  What a \<open>fetch\<close> gives back: a rejected promise, or a response with its status and the
  body as \<open>res.json()\<close> parses it (\<open>None\<close> when parsing fails).
\<close>

datatype 'a fetchResult = NetworkError | Response nat "'a option"

definition ok :: "nat \<Rightarrow> bool" where
  "ok status = (200 \<le> status \<and> status \<le> 299)"

text \<open>
  A failed store call, in the words of the specification: a network error or a
  response that is not OK.
\<close>

definition storeFailed :: "'a fetchResult \<Rightarrow> bool" where
  "storeFailed res = (case res of NetworkError \<Rightarrow> True | Response status body \<Rightarrow> \<not> ok status)"

definition loadReviewsFailed :: "int \<Rightarrow> app \<Rightarrow> app" where
  "loadReviewsFailed weekAgo s =
     showNotification ''Failed to load reviews from server.'' ''error''
       (updateDashboardOverall weekAgo (s\<lparr>reviews := []\<rparr>))"

definition loadReviews :: "int \<Rightarrow> review list fetchResult \<Rightarrow> app \<Rightarrow> app" where
  "loadReviews weekAgo res s =
     (case res of
        NetworkError \<Rightarrow> loadReviewsFailed weekAgo s
      | Response status body \<Rightarrow>
          if \<not> ok status then loadReviewsFailed weekAgo s
          else
            (case body of
               None \<Rightarrow> loadReviewsFailed weekAgo s
             | Some rs \<Rightarrow>
                 (let s1 = updateDashboardOverall weekAgo (s\<lparr>reviews := rs\<rparr>)
                  in if hasMap s1 then
                       (if routeActive s1 \<and> routePath s1 \<noteq> [] then
                          updateDashboardRouteOnly weekAgo (snd (countReviewsAlongRoute s1))
                        else s1)
                     else s1)))"

text \<open>A click on the map in review mode selects the location of the new review.\<close>

definition openReviewModal :: "real \<Rightarrow> real \<Rightarrow> app \<Rightarrow> app" where
  "openReviewModal la lo s = s\<lparr>selectedLocation := Some \<lparr>lat = la, lng = lo\<rparr>\<rparr>"

definition closeReviewModal :: "app \<Rightarrow> app" where
  "closeReviewModal s = s\<lparr>selectedLocation := None\<rparr>"

definition closeViewModal :: "app \<Rightarrow> app" where
  "closeViewModal s = s\<lparr>currentReviewId := None\<rparr>"

definition saveReviewFailed :: "app \<Rightarrow> app" where
  "saveReviewFailed s = showNotification ''Failed to save review.'' ''error'' s"

definition saveReview :: "int \<Rightarrow> review fetchResult \<Rightarrow> app \<Rightarrow> app" where
  "saveReview weekAgo res s =
     (if selectedLocation s = None then s
      else
        (case res of
           NetworkError \<Rightarrow> saveReviewFailed s
         | Response status body \<Rightarrow>
             if \<not> ok status then saveReviewFailed s
             else
               (case body of
                  None \<Rightarrow> saveReviewFailed s
                | Some saved \<Rightarrow>
                    (let s1 = s\<lparr>reviews := saved # reviews s\<rparr>;
                         s2 = refreshDashboard weekAgo s1;
                         s3 = (closeReviewModal s2)\<lparr>isReviewMode := False\<rparr>
                     in showNotification ''Review saved successfully!'' ''success'' s3))))"

definition deleteReviewFailed :: "app \<Rightarrow> app" where
  "deleteReviewFailed s = showNotification ''Failed to delete review.'' ''error'' s"

text \<open>\<open>confirmed\<close> is the answer to the \<open>confirm\<close> dialog.\<close>

definition deleteReview :: "int \<Rightarrow> bool \<Rightarrow> unit fetchResult \<Rightarrow> app \<Rightarrow> app" where
  "deleteReview weekAgo confirmed res s =
     (case currentReviewId s of
        None \<Rightarrow> s
      | Some cid \<Rightarrow>
          if \<not> confirmed then s
          else
            (case res of
               NetworkError \<Rightarrow> deleteReviewFailed s
             | Response status body \<Rightarrow>
                 if status \<noteq> 204 then deleteReviewFailed s
                 else
                   (let s1 = s\<lparr>reviews := filter (\<lambda>r. rid r \<noteq> cid) (reviews s)\<rparr>;
                        s2 = closeViewModal s1;
                        s3 = refreshDashboard weekAgo s2
                    in showNotification ''Review deleted successfully'' ''info'' s3)))"

subsection \<open>Construction and the events of the dashboard\<close>

text \<open>
  The state the constructor leaves, for a page whose elements have the text \<open>page\<close>;
  no dashboard routine has run yet, and the dashboard defaults to overall until a route
  is set.
\<close>

definition initialApp :: "(string \<rightharpoonup> string) \<Rightarrow> app" where
  "initialApp page =
     \<lparr>hasMap = False, reviews = [], selectedLocation = None, currentReviewId = None,
      isReviewMode = False, routePath = [], routeActive = False, routeBufferMeters = 1000,
      routeOverlays = [], routeCountBadge = None, routeFiltered = [], tiles = page,
      mode = Overall, notifications = []\<rparr>"

text \<open>\<open>initMap\<close> creates the map and, in \<open>setupRouteSearchUI\<close>, the badge.\<close>

definition initMap :: "app \<Rightarrow> app" where
  "initMap s = s\<lparr>hasMap := True, routeCountBadge := Some ''Route reviews: 0''\<rparr>"

text \<open>
  The events that reach the dashboard: the answer to a route search, the clear button,
  and the completion of the store calls for creating, deleting and loading reviews.
\<close>

datatype event =
    RouteSearch string string routeResponse
  | RouteClear
  | ReviewCreate "review fetchResult"
  | ReviewDelete bool "unit fetchResult"
  | ReviewLoad "review list fetchResult"

fun handle :: "int \<Rightarrow> app \<Rightarrow> event \<Rightarrow> app" where
  "handle weekAgo s (RouteSearch origin destination resp) = findRoute weekAgo origin destination resp s"
| "handle weekAgo s RouteClear = clearRoute weekAgo s"
| "handle weekAgo s (ReviewCreate res) = saveReview weekAgo res s"
| "handle weekAgo s (ReviewDelete confirmed res) = deleteReview weekAgo confirmed res s"
| "handle weekAgo s (ReviewLoad res) = loadReviews weekAgo res s"

text \<open>
  A route is set when the test \<open>this.routeActive && this.routePath.length\<close> of the
  handlers succeeds. The mode invariant of the specification, on the recorded mode.
\<close>

definition routeSet :: "app \<Rightarrow> bool" where
  "routeSet s = (routeActive s \<and> routePath s \<noteq> [])"

definition modeInvariant :: "app \<Rightarrow> bool" where
  "modeInvariant s =
     ((mode s = RouteOnly) = (routeSet s \<and> routeFiltered s \<noteq> []) \<and>
      (mode s = Empty) = (routeSet s \<and> routeFiltered s = []) \<and>
      (mode s = Overall) = (\<not> routeSet s))"

text \<open>
  The data of the two scenarios of the specification: the route from (0, 0) to (0, 0.01)
  and a review 0.0005 degrees beside its middle.
\<close>

definition scenarioRoute :: "latlng list" where
  "scenarioRoute = [\<lparr>lat = 0, lng = 0\<rparr>, \<lparr>lat = 0, lng = 0.01\<rparr>]"

definition nearReview :: review where
  "nearReview =
     \<lparr>lat = 0.0005, lng = 0.005, rid = ''1'', safetyRating = 4, infrastructureRating = 2,
      description = ''street lights are out'', address = None, timestamp = 0\<rparr>"

text \<open>
  A run of the client: the application starts on a page with the four tiles, the user
  submits \<open>nearReview\<close> and then searches the scenario route, all before the
  initial \<open>loadReviews\<close> has been answered.
\<close>

definition dashboardPage :: "string \<rightharpoonup> string" where
  "dashboardPage =
     [''totalReviews'' \<mapsto> ''-'', ''avgSafety'' \<mapsto> ''-'', ''avgInfra'' \<mapsto> ''-'',
      ''recentReviews'' \<mapsto> ''-'']"

definition reviewSubmitted :: app where
  "reviewSubmitted =
     handle 0 (openReviewModal 0.0005 0.005 (initMap (initialApp dashboardPage)))
       (ReviewCreate (Response 201 (Some nearReview)))"

definition routeSearched :: app where
  "routeSearched =
     handle 0 reviewSubmitted
       (RouteSearch ''Origin'' ''Destination'' (RouteResponse ''OK'' (Some scenarioRoute)))"

text \<open>The ids of the four dashboard tiles.\<close>

definition statIds :: "string list" where
  "statIds = [''totalReviews'', ''avgSafety'', ''avgInfra'', ''recentReviews'']"

section \<open>The review store gateway: creating a review\<close>

text \<open>
  A value of the parsed request body. \<open>JUndefined\<close> is what reading a missing field
  gives; \<open>JOther\<close> stands for arrays and objects.
\<close>

datatype json = JUndefined | JNull | JBool bool | JNum real | JStr string | JOther

text \<open>\<open>typeof x === "number"\<close> and \<open>typeof x === "string"\<close>.\<close>

fun isNumber :: "json \<Rightarrow> bool" where
  "isNumber (JNum x) = True"
| "isNumber j = False"

fun isString :: "json \<Rightarrow> bool" where
  "isString (JStr x) = True"
| "isString j = False"

fun truthy :: "json \<Rightarrow> bool" where
  "truthy JUndefined = False"
| "truthy JNull = False"
| "truthy (JBool b) = b"
| "truthy (JNum x) = (x \<noteq> 0)"
| "truthy (JStr x) = (x \<noteq> [])"
| "truthy JOther = True"

text \<open>The expression \<open>x || null\<close>.\<close>

definition orNull :: "json \<Rightarrow> json" where
  "orNull j = (if truthy j then j else JNull)"

text \<open>Reading a field of \<open>req.body || {}\<close>.\<close>

definition field :: "(string \<rightharpoonup> json) \<Rightarrow> string \<Rightarrow> json" where
  "field req name = (case req name of None \<Rightarrow> JUndefined | Some v \<Rightarrow> v)"

text \<open>
  The row that the \<open>INSERT ... RETURNING\<close> gives back, with \<open>row_id\<close> as \<open>String\<close>
  prints it and the timestamp as an instant.
\<close>

record dbRow = latlng +
  row_id :: string
  safety_rating :: real
  infrastructure_rating :: real
  row_description :: string
  row_address :: "string option"
  row_timestamp :: int

definition toReviewDTO :: "dbRow \<Rightarrow> review" where
  "toReviewDTO row =
     \<lparr>lat = lat row, lng = lng row, rid = row_id row,
      safetyRating = safety_rating row,
      infrastructureRating = infrastructure_rating row,
      description = row_description row,
      address = row_address row,
      timestamp = row_timestamp row\<rparr>"

text \<open>The payload posted to the alerts service.\<close>

record alert = latlng +
  location :: "string option"
  alert_description :: string

datatype responseBody = ErrorBody string | ReviewBody review

record httpResponse =
  resStatus :: nat
  resBody :: responseBody

text \<open>
  The handler of \<open>POST /reviews\<close>. The database is a collaborator: \<open>query\<close> is
  \<open>pool.query\<close> applied to the seven parameters of the \<open>INSERT\<close>, and gives the
  returned row, or \<open>None\<close> when the query throws. The result is the response and the
  payload sent to the alerts service, if any.
\<close>

definition postReviews :: "(json list \<Rightarrow> dbRow option) \<Rightarrow> (string \<rightharpoonup> json) \<Rightarrow> httpResponse \<times> alert option" where
  "postReviews query req =
     (let lat' = field req ''lat''; lng' = field req ''lng'';
          safetyRating' = field req ''safetyRating'';
          infrastructureRating' = field req ''infrastructureRating'';
          description' = field req ''description'';
          address' = field req ''address'';
          timestamp' = field req ''timestamp''
      in if \<not> isNumber lat' \<or> \<not> isNumber lng' \<or>
            \<not> isNumber safetyRating' \<or> \<not> isNumber infrastructureRating' \<or>
            \<not> isString description'
         then (\<lparr>resStatus = 400, resBody = ErrorBody ''Invalid payload''\<rparr>, None)
         else
           (case query [lat', lng', safetyRating', infrastructureRating', description',
                        orNull address', orNull timestamp'] of
              None \<Rightarrow> (\<lparr>resStatus = 500, resBody = ErrorBody ''Server error''\<rparr>, None)
            | Some row \<Rightarrow>
                (let saved = toReviewDTO row
                 in (\<lparr>resStatus = 201, resBody = ReviewBody saved\<rparr>,
                     Some \<lparr>lat = lat saved, lng = lng saved, location = address saved,
                           alert_description = description saved\<rparr>))))"

text \<open>
  A store that executes the \<open>INSERT\<close> on a table without constraints, for a request
  that carries no timestamp: the new row gets the id \<open>newId\<close> and the time \<open>now\<close>.
\<close>

definition insertRow :: "string \<Rightarrow> int \<Rightarrow> json list \<Rightarrow> dbRow option" where
  "insertRow newId now ps =
     (case ps of
        [JNum la, JNum lo, JNum sr, JNum ir, JStr d, a, JNull] \<Rightarrow>
          Some \<lparr>lat = la, lng = lo, row_id = newId, safety_rating = sr,
                infrastructure_rating = ir, row_description = d,
                row_address = (case a of JStr x \<Rightarrow> Some x | _ \<Rightarrow> None),
                row_timestamp = now\<rparr>
      | _ \<Rightarrow> None)"

text \<open>A well-typed request whose description is the empty string.\<close>

definition emptyDescriptionRequest :: "string \<rightharpoonup> json" where
  "emptyDescriptionRequest =
     [''lat'' \<mapsto> JNum 17.4, ''lng'' \<mapsto> JNum 78.5, ''safetyRating'' \<mapsto> JNum 3,
      ''infrastructureRating'' \<mapsto> JNum 4, ''description'' \<mapsto> JStr '''']"

section \<open>Properties of the geometry helpers\<close>

lemma sumsq_zero: "a * a + b * b = 0 \<longleftrightarrow> a = 0 \<and> b = (0::real)"
  by (simp add: sum_squares_eq_zero_iff)

lemma sqrt_sumsq_zero: "sqrt (a * a + b * b) = 0 \<longleftrightarrow> a = 0 \<and> b = (0::real)"
  by (simp add: sum_squares_eq_zero_iff)

text \<open>
  The clamped parameter puts the foot of the perpendicular on the segment; the point
  coincides with it exactly when the point is itself on the segment.
\<close>

lemma clamp_on_segment:
  fixes px py vx vy :: real
  assumes nz: "vx * vx + vy * vy \<noteq> 0"
  shows "(px - vx * max 0 (min 1 ((px * vx + py * vy) / (vx * vx + vy * vy))) = 0 \<and>
          py - vy * max 0 (min 1 ((px * vx + py * vy) / (vx * vx + vy * vy))) = 0)
         \<longleftrightarrow> (\<exists>s. 0 \<le> s \<and> s \<le> 1 \<and> px = s * vx \<and> py = s * vy)"
    (is "?L \<longleftrightarrow> ?R")
proof
  let ?t = "max 0 (min 1 ((px * vx + py * vy) / (vx * vx + vy * vy)))"
  assume ?L
  then have "px = ?t * vx" "py = ?t * vy" by (simp_all add: mult.commute)
  moreover have "0 \<le> ?t" "?t \<le> 1" by simp_all
  ultimately show ?R by blast
next
  assume ?R
  then obtain s where s: "0 \<le> s" "s \<le> 1" "px = s * vx" "py = s * vy" by blast
  have "px * vx + py * vy = s * (vx * vx + vy * vy)"
    using s by (simp add: algebra_simps)
  then have "(px * vx + py * vy) / (vx * vx + vy * vy) = s"
    using nz by simp
  then have "max 0 (min 1 ((px * vx + py * vy) / (vx * vx + vy * vy))) = s"
    using s by simp
  then show ?L using s by (simp add: mult.commute)
qed

lemma dist_nonneg: "0 \<le> distPointToSegmentMeters p v w"
  by (simp add: distPointToSegmentMeters_def Let_def)

text \<open>In exact arithmetic the distance is zero exactly when the point lies on the segment.\<close>

lemma dist_zero_iff: "distPointToSegmentMeters p v w = 0 \<longleftrightarrow> onSegmentProjected p v w"
proof -
  define lat0 where "lat0 = toRad ((lat v + lat w) / 2)"
  define vx where "vx = (lng w - lng v) * mPerDegLng lat0"
  define vy where "vy = (lat w - lat v) * mPerDegLat lat0"
  define px where "px = (lng p - lng v) * mPerDegLng lat0"
  define py where "py = (lat p - lat v) * mPerDegLat lat0"
  have R: "onSegmentProjected p v w \<longleftrightarrow> (\<exists>s. 0 \<le> s \<and> s \<le> 1 \<and> px = s * vx \<and> py = s * vy)"
    by (simp add: onSegmentProjected_def Let_def lat0_def vx_def vy_def px_def py_def)
  have D: "distPointToSegmentMeters p v w =
      (if vx * vx + vy * vy = 0 then sqrt (px * px + py * py)
       else sqrt ((px - vx * max 0 (min 1 ((px * vx + py * vy) / (vx * vx + vy * vy)))) *
                  (px - vx * max 0 (min 1 ((px * vx + py * vy) / (vx * vx + vy * vy)))) +
                  (py - vy * max 0 (min 1 ((px * vx + py * vy) / (vx * vx + vy * vy)))) *
                  (py - vy * max 0 (min 1 ((px * vx + py * vy) / (vx * vx + vy * vy))))))"
    unfolding distPointToSegmentMeters_def Let_def lat0_def vx_def vy_def px_def py_def
    by (rule refl)
  show ?thesis
  proof (cases "vx * vx + vy * vy = 0")
    case True
    then have v0: "vx = 0" "vy = 0" by (simp_all add: sumsq_zero)
    have "distPointToSegmentMeters p v w = sqrt (px * px + py * py)"
      using True D by simp
    then have "distPointToSegmentMeters p v w = 0 \<longleftrightarrow> px = 0 \<and> py = 0"
      by (simp add: sqrt_sumsq_zero)
    also have "\<dots> \<longleftrightarrow> (\<exists>s. 0 \<le> s \<and> s \<le> 1 \<and> px = s * vx \<and> py = s * vy)"
      using v0 by auto
    finally show ?thesis using R by simp
  next
    case False
    let ?t = "max 0 (min 1 ((px * vx + py * vy) / (vx * vx + vy * vy)))"
    have "distPointToSegmentMeters p v w =
            sqrt ((px - vx * ?t) * (px - vx * ?t) + (py - vy * ?t) * (py - vy * ?t))"
      using False by (simp only: D if_False)
    then have "distPointToSegmentMeters p v w = 0 \<longleftrightarrow> px - vx * ?t = 0 \<and> py - vy * ?t = 0"
      by (simp only: sqrt_sumsq_zero)
    also have "\<dots> \<longleftrightarrow> (\<exists>s. 0 \<le> s \<and> s \<le> 1 \<and> px = s * vx \<and> py = s * vy)"
      by (rule clamp_on_segment [OF False])
    finally show ?thesis using R by simp
  qed
qed

text \<open>
  Claim C3 (degenerate segment). When the endpoints of the segment coincide, the
  distance is the straight-line distance, in the plane of the projection anchored at
  the latitude of that endpoint, from the query point to the endpoint.
\<close>

theorem degenerate_segment_distance:
  "distPointToSegmentMeters p v v =
     sqrt (((lng p - lng v) * mPerDegLng (toRad (lat v)))\<^sup>2 +
           ((lat p - lat v) * mPerDegLat (toRad (lat v)))\<^sup>2)"
  by (simp add: distPointToSegmentMeters_def Let_def power2_eq_square)

section \<open>Properties of the computation in doubles\<close>

text \<open>Rounding: zero, sign and size.\<close>

lemma ulp_pos: "0 < ulp x"
  by (simp add: ulp_def)

lemma roundHalfEven_half: "\<bar>y\<bar> \<le> 1 / 2 \<Longrightarrow> roundHalfEven y = 0"
proof -
  assume a: "\<bar>y\<bar> \<le> 1 / 2"
  consider "0 \<le> y" | "y < 0" by linarith
  then show ?thesis
  proof cases
    case 1
    then have "\<lfloor>y\<rfloor> = 0" using a by (simp add: floor_eq_iff)
    then show ?thesis using a 1 by (simp add: roundHalfEven_def Let_def)
  next
    case 2
    then have f: "\<lfloor>y\<rfloor> = - 1" using a by (simp add: floor_eq_iff)
    have "y - of_int \<lfloor>y\<rfloor> \<ge> 1 / 2" using a 2 f by simp
    then show ?thesis using f by (auto simp: roundHalfEven_def Let_def)
  qed
qed

lemma roundHalfEven_cases:
  "roundHalfEven y = \<lfloor>y\<rfloor> \<and> y - of_int \<lfloor>y\<rfloor> \<le> 1 / 2 \<or>
   roundHalfEven y = \<lfloor>y\<rfloor> + 1 \<and> 1 / 2 \<le> y - of_int \<lfloor>y\<rfloor>"
  by (auto simp: roundHalfEven_def Let_def)

lemma roundHalfEven_near: "\<bar>of_int (roundHalfEven y) - y\<bar> \<le> 1 / 2"
proof -
  have "of_int \<lfloor>y\<rfloor> \<le> y" "y < of_int \<lfloor>y\<rfloor> + 1" by linarith+
  then show ?thesis using roundHalfEven_cases [of y] by auto
qed

lemma roundHalfEven_abs_le: "\<bar>of_int (roundHalfEven y) :: real\<bar> \<le> 2 * \<bar>y\<bar>"
proof (cases "\<bar>y\<bar> \<le> 1 / 2")
  case True
  then show ?thesis by (simp add: roundHalfEven_half)
next
  case False
  then show ?thesis using roundHalfEven_near [of y] by linarith
qed

lemma roundHalfEven_nonneg: "0 \<le> y \<Longrightarrow> 0 \<le> roundHalfEven y"
  using roundHalfEven_cases [of y] by (auto simp: floor_less_iff not_less)

lemma roundDouble_zero [simp]: "roundDouble 0 = 0"
  by (simp add: roundDouble_def roundHalfEven_half)

lemma double_zero [simp]:
  "fsub 0 0 = 0" "fadd 0 0 = 0" "fmul 0 x = 0" "fmul x 0 = 0" "fdiv 0 x = 0" "Math_sqrt 0 = 0"
  by (simp_all add: fsub_def fadd_def fmul_def fdiv_def Math_sqrt_def)

lemma roundDouble_abs_le: "\<bar>roundDouble x\<bar> \<le> 2 * \<bar>x\<bar>"
proof -
  have "\<bar>roundDouble x\<bar> = ulp x * \<bar>of_int (roundHalfEven (x / ulp x))\<bar>"
    using ulp_pos [of x] by (simp add: roundDouble_def abs_mult)
  also have "\<dots> \<le> ulp x * (2 * \<bar>x / ulp x\<bar>)"
    using ulp_pos [of x] roundHalfEven_abs_le [of "x / ulp x"]
    by (intro mult_left_mono) simp_all
  also have "\<dots> = 2 * \<bar>x\<bar>" using ulp_pos [of x] by (simp add: abs_divide)
  finally show ?thesis .
qed

lemma roundDouble_nonneg: "0 \<le> x \<Longrightarrow> 0 \<le> roundDouble x"
  using ulp_pos [of x] roundHalfEven_nonneg [of "x / ulp x"]
  by (simp add: roundDouble_def)

text \<open>A real of at most half the smallest positive double rounds to zero.\<close>

lemma roundDouble_tiny:
  assumes "\<bar>x\<bar> \<le> 2 powr (- 1075)"
  shows "roundDouble x = 0"
proof (cases "x = 0")
  case True
  then show ?thesis by simp
next
  case False
  then have pos: "0 < \<bar>x\<bar>" by simp
  have "log 2 \<bar>x\<bar> \<le> - 1075"
    using assms pos le_powr_iff [of 2 "\<bar>x\<bar>" "- 1075"] by simp
  then have "\<lfloor>log 2 \<bar>x\<bar>\<rfloor> \<le> - 1075" by (simp add: floor_le_iff)
  then have b: "binade x = - 1022" by (simp add: binade_def)
  have u: "ulp x = 2 powr (- 1074)" by (simp add: ulp_def b)
  have "\<bar>x / ulp x\<bar> \<le> 2 powr (- 1075) / 2 powr (- 1074)"
    using assms by (simp add: u abs_divide divide_right_mono)
  also have "\<dots> = 2 powr (- 1)" by (simp add: powr_diff [symmetric])
  also have "\<dots> = 1 / 2" by (simp add: powr_minus_divide)
  finally have "roundHalfEven (x / ulp x) = 0" by (rule roundHalfEven_half)
  then show ?thesis by (simp add: roundDouble_def)
qed

text \<open>
  Evaluation of \<open>roundDouble\<close> at a given real: with \<open>n\<close> such that \<open>x * 2^n\<close> lies
  between \<open>2^52\<close> and \<open>2^53\<close>, the result is the rounded integer over \<open>2^n\<close>.
\<close>

lemma roundDouble_scaled:
  fixes n :: nat
  assumes lo: "2 ^ 52 \<le> \<bar>x\<bar> * 2 ^ n" and hi: "\<bar>x\<bar> * 2 ^ n < 2 ^ 53" and n: "n \<le> 1074"
    and m: "roundHalfEven (x * 2 ^ n) = m" and y: "y = of_int m / 2 ^ n"
  shows "roundDouble x = y"
proof -
  have pn: "(2::real) powr (- real n) = 1 / 2 ^ n"
    by (simp add: powr_minus_divide powr_realpow)
  have lo': "2 powr (52 - real n) \<le> \<bar>x\<bar>"
  proof -
    have "2 powr (52 - real n) = 2 ^ 52 / 2 ^ n"
      by (simp add: powr_diff powr_realpow)
    also have "\<dots> \<le> \<bar>x\<bar>" using lo by (simp add: field_simps)
    finally show ?thesis .
  qed
  have hi': "\<bar>x\<bar> < 2 powr (53 - real n)"
  proof -
    have "\<bar>x\<bar> < 2 ^ 53 / 2 ^ n" using hi by (simp add: field_simps)
    also have "\<dots> = 2 powr (53 - real n)"
      by (simp add: powr_diff powr_realpow)
    finally show ?thesis .
  qed
  have pos: "0 < \<bar>x\<bar>" using lo' by (rule less_le_trans [rotated]) simp
  have "52 - real n \<le> log 2 \<bar>x\<bar>"
    using lo' pos powr_le_iff [of 2 "\<bar>x\<bar>" "52 - real n"] by simp
  moreover have "log 2 \<bar>x\<bar> < 53 - real n"
    using hi' pos less_powr_iff [of 2 "\<bar>x\<bar>" "53 - real n"] by simp
  ultimately have "\<lfloor>log 2 \<bar>x\<bar>\<rfloor> = 52 - int n" by (simp add: floor_eq_iff)
  then have "binade x = 52 - int n" using n by (simp add: binade_def)
  then have "ulp x = 2 powr (- real n)" by (simp add: ulp_def)
  then have u: "ulp x = 1 / 2 ^ n" using pn by simp
  show ?thesis by (simp add: roundDouble_def u m y)
qed

lemma roundDouble_one: "roundDouble 1 = 1"
  by (rule roundDouble_scaled [where n = 52 and m = "2 ^ 52"])
     (simp_all add: roundHalfEven_def Let_def)

lemma Math_cos_zero: "Math_cos 0 = 1"
  by (simp add: Math_cos_def roundDouble_one)

lemma toRadDouble_zero: "toRadDouble 0 = 0"
  by (simp add: toRadDouble_def)

lemma double_abs_le:
  "\<bar>fadd a b\<bar> \<le> 2 * (\<bar>a\<bar> + \<bar>b\<bar>)" "\<bar>fsub a b\<bar> \<le> 2 * (\<bar>a\<bar> + \<bar>b\<bar>)"
  "\<bar>fmul a b\<bar> \<le> 2 * (\<bar>a\<bar> * \<bar>b\<bar>)" "\<bar>Math_cos x\<bar> \<le> 2"
proof -
  have "\<bar>fadd a b\<bar> \<le> 2 * \<bar>a + b\<bar>"
    unfolding fadd_def by (rule roundDouble_abs_le)
  also have "\<dots> \<le> 2 * (\<bar>a\<bar> + \<bar>b\<bar>)"
    by (intro mult_left_mono abs_triangle_ineq) simp
  finally show "\<bar>fadd a b\<bar> \<le> 2 * (\<bar>a\<bar> + \<bar>b\<bar>)" .
  have "\<bar>fsub a b\<bar> \<le> 2 * \<bar>a - b\<bar>"
    unfolding fsub_def by (rule roundDouble_abs_le)
  also have "\<dots> \<le> 2 * (\<bar>a\<bar> + \<bar>b\<bar>)"
    by (intro mult_left_mono abs_triangle_ineq4) simp
  finally show "\<bar>fsub a b\<bar> \<le> 2 * (\<bar>a\<bar> + \<bar>b\<bar>)" .
  show "\<bar>fmul a b\<bar> \<le> 2 * (\<bar>a\<bar> * \<bar>b\<bar>)"
    using roundDouble_abs_le [of "a * b"] by (simp add: fmul_def abs_mult)
  have "\<bar>Math_cos x\<bar> \<le> 2 * \<bar>cos x\<bar>"
    unfolding Math_cos_def by (rule roundDouble_abs_le)
  also have "\<dots> \<le> 2 * 1"
    by (intro mult_left_mono abs_cos_le_one) simp
  finally show "\<bar>Math_cos x\<bar> \<le> 2" by simp
qed

lemma fadd_bound: "\<bar>a\<bar> \<le> m \<Longrightarrow> \<bar>b\<bar> \<le> n \<Longrightarrow> \<bar>fadd a b\<bar> \<le> 2 * (m + n)"
  by (rule order_trans [OF double_abs_le(1)]) simp

lemma fsub_bound: "\<bar>a\<bar> \<le> m \<Longrightarrow> \<bar>b\<bar> \<le> n \<Longrightarrow> \<bar>fsub a b\<bar> \<le> 2 * (m + n)"
  by (rule order_trans [OF double_abs_le(2)]) simp

lemma fmul_bound: "\<bar>a\<bar> \<le> m \<Longrightarrow> \<bar>b\<bar> \<le> n \<Longrightarrow> \<bar>fmul a b\<bar> \<le> 2 * (m * n)"
proof -
  assume a: "\<bar>a\<bar> \<le> m" and b: "\<bar>b\<bar> \<le> n"
  have "0 \<le> m" using a abs_ge_zero [of a] by (rule order_trans [rotated])
  then have "\<bar>a\<bar> * \<bar>b\<bar> \<le> m * n" using a b by (intro mult_mono) simp_all
  then show ?thesis by (intro order_trans [OF double_abs_le(3)]) simp
qed

lemma literal_bound: "\<bar>c\<bar> \<le> m \<Longrightarrow> \<bar>roundDouble c\<bar> \<le> 2 * m"
  by (rule order_trans [OF roundDouble_abs_le]) simp

lemma mPerDegLatDouble_bound: "\<bar>mPerDegLatDouble x\<bar> \<le> 2 ^ 20"
proof -
  have c1: "\<bar>roundDouble 111132.92\<bar> \<le> 2 * 111133" by (rule literal_bound) simp
  have c2: "\<bar>roundDouble 559.82\<bar> \<le> 2 * 560" by (rule literal_bound) simp
  have c3: "\<bar>roundDouble 1.175\<bar> \<le> 2 * 2" by (rule literal_bound) simp
  have "\<bar>mPerDegLatDouble x\<bar> \<le>
          2 * (2 * (2 * 111133 + 2 * (2 * 560 * 2)) + 2 * (2 * 2 * 2))"
    unfolding mPerDegLatDouble_def
    by (intro fadd_bound fsub_bound fmul_bound c1 c2 c3 double_abs_le(4))
  then show ?thesis by simp
qed

lemma tiny_square: "\<bar>y\<bar> \<le> 2 powr (- 538) \<Longrightarrow> fmul y y = 0"
proof -
  assume a: "\<bar>y\<bar> \<le> 2 powr (- 538)"
  have "\<bar>y * y\<bar> = \<bar>y\<bar> * \<bar>y\<bar>" by (simp add: abs_mult)
  also have "\<dots> \<le> 2 powr (- 538) * 2 powr (- 538)"
    using a by (intro mult_mono) simp_all
  also have "\<dots> = 2 powr (- 1076)" by (simp add: powr_add [symmetric])
  also have "\<dots> \<le> 2 powr (- 1075)" by simp
  finally show ?thesis unfolding fmul_def by (rule roundDouble_tiny)
qed

text \<open>
  A point on the meridian of \<open>V = (0, 0)\<close>, at most \<open>2^(-600)\<close> degrees from it: the
  square of its offset in metres underflows, and the distance to the segment from
  \<open>V\<close> to \<open>(0, 1)\<close> is computed as 0.
\<close>

lemma underflow_general:
  assumes e: "\<bar>e\<bar> \<le> 2 powr (- 600)"
  shows "distPointToSegmentDouble \<lparr>lat = e, lng = 0\<rparr> \<lparr>lat = 0, lng = 0\<rparr> \<lparr>lat = 0, lng = 1\<rparr> = 0"
proof -
  define L where "L = toRadDouble 0"
  define A where "A = mPerDegLatDouble L"
  define B where "B = mPerDegLngDouble L"
  define py where "py = fmul (fsub e 0) A"
  define S where "S = fadd (fmul (fmul (fsub 1 0) B) (fmul (fsub 1 0) B)) 0"
  have D: "distPointToSegmentDouble \<lparr>lat = e, lng = 0\<rparr> \<lparr>lat = 0, lng = 0\<rparr> \<lparr>lat = 0, lng = 1\<rparr> =
      (if S = 0 then Math_sqrt (fadd 0 (fmul py py))
       else Math_sqrt (fadd 0 (fmul (fsub py 0) (fsub py 0))))"
    by (simp add: distPointToSegmentDouble_def Let_def L_def A_def B_def py_def S_def)
  have "\<bar>fsub e 0\<bar> \<le> 2 * 2 powr (- 600)"
    using double_abs_le(2) [of e 0] e by simp
  moreover have "\<bar>A\<bar> \<le> 2 ^ 20" unfolding A_def by (rule mPerDegLatDouble_bound)
  ultimately have "\<bar>fsub e 0\<bar> * \<bar>A\<bar> \<le> (2 * 2 powr (- 600)) * 2 ^ 20"
    by (intro mult_mono) simp_all
  then have "\<bar>py\<bar> \<le> 2 * ((2 * 2 powr (- 600)) * 2 ^ 20)"
    unfolding py_def using double_abs_le(3) [of "fsub e 0" A] by linarith
  also have "\<dots> = 2 powr 22 * 2 powr (- 600)" by simp
  also have "\<dots> = 2 powr (- 578)" by (simp only: powr_add [symmetric]) simp
  finally have py: "\<bar>py\<bar> \<le> 2 powr (- 578)" .
  have "2 powr (- 578) \<le> (2::real) powr (- 538)" by simp
  then have sq: "fmul py py = 0" using py by (intro tiny_square) linarith
  have "\<bar>fsub py 0\<bar> \<le> 2 * 2 powr (- 578)"
    using double_abs_le(2) [of py 0] py by simp
  also have "\<dots> = 2 powr 1 * 2 powr (- 578)" by simp
  also have "\<dots> = 2 powr (- 577)" by (simp only: powr_add [symmetric]) simp
  also have "\<dots> \<le> 2 powr (- 538)" by simp
  finally have sq': "fmul (fsub py 0) (fsub py 0) = 0" by (rule tiny_square)
  show ?thesis by (simp add: D sq sq')
qed

lemma tiny_offset_is_double: "roundDouble (1 / 2 ^ 600) = 1 / 2 ^ 600"
  by (rule roundDouble_scaled [where n = 652 and m = "2 ^ 52"])
     (simp_all add: roundHalfEven_def Let_def)

lemma off_segment_zero:
  "distPointToSegmentDouble \<lparr>lat = 1 / 2 ^ 600, lng = 0\<rparr> \<lparr>lat = 0, lng = 0\<rparr> \<lparr>lat = 0, lng = 1\<rparr> = 0"
proof -
  have "\<bar>1 / 2 ^ 600 :: real\<bar> \<le> 2 powr (- 600)"
    by (simp add: powr_minus_divide powr_realpow del: power_numeral)
  then show ?thesis by (rule underflow_general)
qed

lemma off_segment: "\<not> onSegmentProjected \<lparr>lat = 1 / 2 ^ 600, lng = 0\<rparr> \<lparr>lat = 0, lng = 0\<rparr> \<lparr>lat = 0, lng = 1\<rparr>"
  by (simp add: onSegmentProjected_def Let_def toRad_def mPerDegLat_def mPerDegLng_def)

text \<open>
  The point \<open>(0, 11/16)\<close> on the same segment: every rounding of the computation,
  step by step. The foot of the perpendicular is rounded one unit in the last place
  away from the point.
\<close>

lemma mPerDegLngDouble_zero: "mPerDegLngDouble 0 = 3824903397698437 / 34359738368"
proof -
  let ?k = "3828116033235845 / 34359738368 :: real"
  have k: "roundDouble 111412.84 = ?k"
    by (rule roundDouble_scaled [where n = 36 and m = 7656232066471690])
       (simp_all add: roundHalfEven_def Let_def)
  have k1: "fmul ?k 1 = ?k"
    unfolding fmul_def
    by (rule roundDouble_scaled [where n = 36 and m = 7656232066471690])
       (simp_all add: roundHalfEven_def Let_def)
  have c: "roundDouble 93.5 = 187 / 2"
    by (rule roundDouble_scaled [where n = 46 and m = 6579477580611584])
       (simp_all add: roundHalfEven_def Let_def)
  have c1: "fmul (187 / 2) 1 = 187 / 2"
    unfolding fmul_def
    by (rule roundDouble_scaled [where n = 46 and m = 6579477580611584])
       (simp_all add: roundHalfEven_def Let_def)
  have b: "fsub ?k (187 / 2) = 3824903397698437 / 34359738368"
    unfolding fsub_def
    by (rule roundDouble_scaled [where n = 36 and m = 7649806795396874])
       (simp_all add: roundHalfEven_def Let_def)
  show ?thesis
    unfolding mPerDegLngDouble_def
    by (simp only: double_zero Math_cos_zero k k1 c c1 b)
qed

lemma on_segment_steps:
  fixes B px S N t pr dx :: real
  defines "B \<equiv> 3824903397698437 / 34359738368"
    and "px \<equiv> 5259242171835351 / 68719476736"
    and "S \<equiv> 812121814337821 / 65536"
    and "N \<equiv> 139583436839313 / 16384"
    and "t \<equiv> 6192449487634433 / 9007199254740992"
    and "pr \<equiv> 657405271479419 / 8589934592"
    and "dx \<equiv> - 1 / 68719476736"
  shows "fsub 1 0 = 1" "fmul 1 B = B" "fsub (11 / 16) 0 = 11 / 16" "fmul (11 / 16) B = px"
    "fmul B B = S" "fadd S 0 = S" "fmul px B = N" "fadd N 0 = N" "fdiv N S = t"
    "fmul B t = pr" "fsub px pr = dx" "fmul dx dx = 1 / 2 ^ 72" "fadd (1 / 2 ^ 72) 0 = 1 / 2 ^ 72"
    "Math_sqrt (1 / 2 ^ 72) = 1 / 2 ^ 36"
proof -
  show "fsub 1 0 = 1"
    unfolding fsub_def
    by (rule roundDouble_scaled [where n = 52 and m = 4503599627370496])
       (simp_all add: roundHalfEven_def Let_def)
  show "fmul 1 B = B"
    unfolding fmul_def B_def
    by (rule roundDouble_scaled [where n = 36 and m = 7649806795396874])
       (simp_all add: roundHalfEven_def Let_def)
  show "fsub (11 / 16) 0 = 11 / 16"
    unfolding fsub_def
    by (rule roundDouble_scaled [where n = 53 and m = 6192449487634432])
       (simp_all add: roundHalfEven_def Let_def)
  show "fmul (11 / 16) B = px"
    unfolding fmul_def B_def px_def
    by (rule roundDouble_scaled [where n = 36 and m = 5259242171835351])
       (simp_all add: roundHalfEven_def Let_def)
  show "fmul B B = S"
    unfolding fmul_def B_def S_def
    by (rule roundDouble_scaled [where n = 19 and m = 6496974514702568])
       (simp_all add: roundHalfEven_def Let_def)
  show "fadd S 0 = S"
    unfolding fadd_def S_def
    by (rule roundDouble_scaled [where n = 19 and m = 6496974514702568])
       (simp_all add: roundHalfEven_def Let_def)
  show "fmul px B = N"
    unfolding fmul_def B_def px_def N_def
    by (rule roundDouble_scaled [where n = 20 and m = 8933339957716032])
       (simp_all add: roundHalfEven_def Let_def)
  show "fadd N 0 = N"
    unfolding fadd_def N_def
    by (rule roundDouble_scaled [where n = 20 and m = 8933339957716032])
       (simp_all add: roundHalfEven_def Let_def)
  show "fdiv N S = t"
    unfolding fdiv_def N_def S_def t_def
    by (rule roundDouble_scaled [where n = 53 and m = 6192449487634433])
       (simp_all add: roundHalfEven_def Let_def)
  show "fmul B t = pr"
    unfolding fmul_def B_def t_def pr_def
    by (rule roundDouble_scaled [where n = 36 and m = 5259242171835352])
       (simp_all add: roundHalfEven_def Let_def)
  show "fsub px pr = dx"
    unfolding fsub_def px_def pr_def dx_def
    by (rule roundDouble_scaled [where n = 88 and m = "- 4503599627370496"])
       (simp_all add: roundHalfEven_def Let_def)
  show "fmul dx dx = 1 / 2 ^ 72"
    unfolding fmul_def dx_def
    by (rule roundDouble_scaled [where n = 124 and m = 4503599627370496])
       (simp_all add: roundHalfEven_def Let_def)
  show "fadd (1 / 2 ^ 72) 0 = 1 / 2 ^ 72"
    unfolding fadd_def
    by (rule roundDouble_scaled [where n = 124 and m = 4503599627370496])
       (simp_all add: roundHalfEven_def Let_def)
  have "sqrt (1 / 2 ^ 72) = sqrt ((1 / 2 ^ 36)\<^sup>2)"
    by (simp add: power2_eq_square)
  also have "\<dots> = 1 / 2 ^ 36" by (simp only: real_sqrt_abs) simp
  finally have sq: "sqrt (1 / 2 ^ 72) = (1 / 2 ^ 36 :: real)" .
  show "Math_sqrt (1 / 2 ^ 72) = 1 / 2 ^ 36"
    unfolding Math_sqrt_def sq
    by (rule roundDouble_scaled [where n = 88 and m = 4503599627370496])
       (simp_all add: roundHalfEven_def Let_def)
qed

lemma on_segment_positive:
  "distPointToSegmentDouble \<lparr>lat = 0, lng = 11 / 16\<rparr> \<lparr>lat = 0, lng = 0\<rparr> \<lparr>lat = 0, lng = 1\<rparr>
     = 1 / 2 ^ 36"
proof -
  have S: "(812121814337821 / 65536 = (0::real)) = False" by simp
  have t: "max 0 (min 1 (6192449487634433 / 9007199254740992 :: real))
             = 6192449487634433 / 9007199254740992" by simp
  show ?thesis
    unfolding distPointToSegmentDouble_def Let_def
    by (simp only: latlng.select_convs double_zero toRadDouble_zero mPerDegLngDouble_zero
          on_segment_steps S t if_False)
qed

lemma on_segment: "onSegmentProjected \<lparr>lat = 0, lng = 11 / 16\<rparr> \<lparr>lat = 0, lng = 0\<rparr> \<lparr>lat = 0, lng = 1\<rparr>"
  by (auto simp: onSegmentProjected_def Let_def intro!: exI [of _ "11 / 16"])

lemma double_dist_nonneg: "0 \<le> distPointToSegmentDouble p v w"
proof -
  have sq: "0 \<le> fmul a a" for a
    unfolding fmul_def by (rule roundDouble_nonneg) simp
  have "0 \<le> Math_sqrt (fadd (fmul a a) (fmul b b))" for a b
    unfolding Math_sqrt_def fadd_def
    by (intro roundDouble_nonneg real_sqrt_ge_zero add_nonneg_nonneg sq)
  then show ?thesis by (simp add: distPointToSegmentDouble_def Let_def)
qed

text \<open>
  Claim C4, as stated, fails for the computation in doubles, in both directions. The
  point \<open>2^(-600)\<close> degrees north of the endpoint \<open>V\<close> of the segment from \<open>(0, 0)\<close>
  to \<open>(0, 1)\<close> is not on the segment, and its distance is computed as 0. The point
  \<open>(0, 11/16)\<close> lies on the segment, and its distance is computed as \<open>2^(-36)\<close>.
\<close>

theorem double_distance_zero_mismatch:
  "distPointToSegmentDouble \<lparr>lat = 1 / 2 ^ 600, lng = 0\<rparr>
     \<lparr>lat = 0, lng = 0\<rparr> \<lparr>lat = 0, lng = 1\<rparr> = 0 \<and>
   \<not> onSegmentProjected \<lparr>lat = 1 / 2 ^ 600, lng = 0\<rparr>
     \<lparr>lat = 0, lng = 0\<rparr> \<lparr>lat = 0, lng = 1\<rparr> \<and>
   distPointToSegmentDouble \<lparr>lat = 0, lng = 11 / 16\<rparr>
     \<lparr>lat = 0, lng = 0\<rparr> \<lparr>lat = 0, lng = 1\<rparr> = 1 / 2 ^ 36 \<and>
   onSegmentProjected \<lparr>lat = 0, lng = 11 / 16\<rparr>
     \<lparr>lat = 0, lng = 0\<rparr> \<lparr>lat = 0, lng = 1\<rparr>"
  using off_segment_zero off_segment on_segment_positive on_segment by blast

text \<open>
  Claim C4, amended. The point-to-segment distance is never negative, in exact
  arithmetic and as computed in doubles.
\<close>

theorem point_to_segment_distance_nonneg:
  "0 \<le> distPointToSegmentMeters p v w \<and> 0 \<le> distPointToSegmentDouble p v w"
  using dist_nonneg [of p v w] double_dist_nonneg [of p v w] by simp

section \<open>Properties of the polyline scan\<close>

lemma minStep_le: "num_le mn buf \<Longrightarrow> num_le (minStep d mn) buf"
  by (cases mn) (auto simp: minStep_def)

lemma foldl_minStep_le:
  "num_le mn buf \<Longrightarrow> num_le (foldl (\<lambda>mn i. minStep (f i) mn) mn is) buf"
  by (induction "is" arbitrary: mn) (auto simp: minStep_le)

text \<open>
  From any index and any running minimum, the loop with the quick exit and the full
  scan of the remaining segments agree on whether the result is within the buffer.
\<close>

lemma loop_verdict:
  "num_le (minDistanceLoop buf p path i mn) buf \<longleftrightarrow>
   num_le (foldl (\<lambda>mn i. minStep (distPointToSegmentMeters p (path ! i) (path ! (i + 1))) mn)
       mn [i..<length path - 1]) buf"
proof (induction buf p path i mn rule: minDistanceLoop.induct)
  case (1 buf p path i mn)
  let ?f = "\<lambda>i. distPointToSegmentMeters p (path ! i) (path ! (i + 1))"
  show ?case
  proof (cases "i + 1 < length path")
    case False
    then show ?thesis by (simp add: minDistanceLoop.simps [of buf p path i mn])
  next
    case True
    then have upt: "[i..<length path - 1] = i # [i + 1..<length path - 1]"
      by (simp add: upt_conv_Cons)
    show ?thesis
    proof (cases "num_le (minStep (?f i) mn) buf")
      case le: True
      have "minDistanceLoop buf p path i mn = minStep (?f i) mn"
        using True le by (simp add: minDistanceLoop.simps [of buf p path i mn] Let_def)
      moreover have "num_le (foldl (\<lambda>mn i. minStep (?f i) mn) (minStep (?f i) mn)
                       [i + 1..<length path - 1]) buf"
        using le by (rule foldl_minStep_le)
      ultimately show ?thesis unfolding upt foldl_Cons using le by simp
    next
      case nle: False
      have "minDistanceLoop buf p path i mn =
              minDistanceLoop buf p path (i + 1) (minStep (?f i) mn)"
        using True nle by (simp add: minDistanceLoop.simps [of buf p path i mn] Let_def)
      then show ?thesis
        unfolding upt foldl_Cons using "1.IH" [OF True refl refl refl refl nle] by simp
    qed
  qed
qed

text \<open>The full scan is within the buffer exactly when some segment is.\<close>

lemma foldl_minStep_exists:
  "num_le (foldl (\<lambda>mn i. minStep (f i) mn) mn is) buf \<longleftrightarrow>
     num_le mn buf \<or> (\<exists>i \<in> set is. f i \<le> buf)"
proof (induction "is" arbitrary: mn)
  case Nil
  then show ?case by simp
next
  case (Cons a "is")
  have "num_le (minStep (f a) mn) buf \<longleftrightarrow> num_le mn buf \<or> f a \<le> buf"
    by (cases mn) (auto simp: minStep_def)
  then show ?case using Cons.IH [of "minStep (f a) mn"] by auto
qed

lemma reference_verdict:
  "num_le (minDistanceReference p path) buf \<longleftrightarrow>
     (\<exists>i. i + 1 < length path \<and>
        distPointToSegmentMeters p (path ! i) (path ! (i + 1)) \<le> buf)"
proof -
  have "(\<exists>i \<in> set [0..<length path - 1].
           distPointToSegmentMeters p (path ! i) (path ! (i + 1)) \<le> buf) \<longleftrightarrow>
        (\<exists>i. i + 1 < length path \<and>
           distPointToSegmentMeters p (path ! i) (path ! (i + 1)) \<le> buf)"
    by (auto simp: less_diff_conv)
  then show ?thesis
    unfolding minDistanceReference_def foldl_minStep_exists by simp
qed

text \<open>
  Claim C1 (early-exit equivalence). For every route, buffer and review point, the
  verdict "minimum distance within the buffer" of the routine with the quick exit is
  the verdict of the reference that scans every segment.
\<close>

theorem early_exit_same_classification:
  "num_le (minDistanceToPolylineMeters buf p path) buf
     = num_le (minDistanceReference p path) buf"
  unfolding minDistanceToPolylineMeters_def minDistanceReference_def
  by (rule loop_verdict)

text \<open>The two distances of the scenario, computed exactly.\<close>

lemma near_dist:
  "distPointToSegmentMeters \<lparr>lat = 0.0005, lng = 0.005\<rparr>
     \<lparr>lat = 0, lng = 0\<rparr> \<lparr>lat = 0, lng = 0.01\<rparr> = 4422971 / 80000"
proof -
  have "sqrt (19562672466841 / 6400000000) = sqrt ((4422971 / 80000)\<^sup>2)"
    by (simp add: power2_eq_square)
  also have "\<dots> = 4422971 / 80000" by simp
  finally show ?thesis
    by (simp add: distPointToSegmentMeters_def toRad_def mPerDegLat_def mPerDegLng_def Let_def)
qed

lemma far_dist:
  "distPointToSegmentMeters \<lparr>lat = 0.02, lng = 0.005\<rparr>
     \<lparr>lat = 0, lng = 0\<rparr> \<lparr>lat = 0, lng = 0.01\<rparr> = 4422971 / 2000"
proof -
  have "sqrt (19562672466841 / 4000000) = sqrt ((4422971 / 2000)\<^sup>2)"
    by (simp add: power2_eq_square)
  also have "\<dots> = 4422971 / 2000" by simp
  finally show ?thesis
    by (simp add: distPointToSegmentMeters_def toRad_def mPerDegLat_def mPerDegLng_def Let_def)
qed

text \<open>The scenarios with each pair read as latitude, then longitude: the route runs east.\<close>

lemma scenario_lat_lng:
  "num_le (minDistanceToPolylineMeters 1000 \<lparr>lat = 0.0005, lng = 0.005\<rparr>
            [\<lparr>lat = 0, lng = 0\<rparr>, \<lparr>lat = 0, lng = 0.01\<rparr>]) 1000 \<and>
   \<not> num_le (minDistanceToPolylineMeters 1000 \<lparr>lat = 0.02, lng = 0.005\<rparr>
            [\<lparr>lat = 0, lng = 0\<rparr>, \<lparr>lat = 0, lng = 0.01\<rparr>]) 1000"
  using near_dist far_dist
  by (simp add: minDistanceToPolylineMeters_def minDistanceLoop.simps [of _ _ _ 0]
        minDistanceLoop.simps [of _ _ _ "Suc 0"] minStep_def Let_def)

text \<open>
  The scenarios with each pair read as longitude, then latitude: the route runs north,
  and the distance is the offset in longitude scaled at the midpoint latitude.
\<close>

lemma north_dist:
  "distPointToSegmentMeters \<lparr>lat = 0.005, lng = x\<rparr> \<lparr>lat = 0, lng = 0\<rparr> \<lparr>lat = 0.01, lng = 0\<rparr>
     = \<bar>x * mPerDegLng (toRad 0.005)\<bar>"
proof -
  define A where "A = mPerDegLat (toRad (1 / 200))"
  define B where "B = mPerDegLng (toRad (1 / 200))"
  show ?thesis
  proof (cases "A = 0")
    case True
    then show ?thesis
      by (simp add: distPointToSegmentMeters_def Let_def A_def [symmetric] B_def [symmetric])
  next
    case False
    then show ?thesis
      by (simp add: distPointToSegmentMeters_def Let_def A_def [symmetric] B_def [symmetric])
  qed
qed

lemma mPerDegLng_bounds:
  "\<bar>mPerDegLng (toRad 0.005)\<bar> \<le> 111506.34" "50000 < \<bar>mPerDegLng (toRad 0.005)\<bar>"
proof -
  define x where "x = toRad 0.005"
  define c where "c = cos x"
  define d where "d = cos (3 * x)"
  have x0: "0 \<le> x" by (simp add: x_def toRad_def)
  have xpi: "x \<le> pi / 3" using pi_ge_zero by (simp add: x_def toRad_def)
  have c1: "c \<le> 1" and d1: "d \<le> 1" and d1': "- 1 \<le> d" and c1': "- 1 \<le> c"
    by (simp_all add: c_def d_def)
  have "cos (pi / 3) \<le> cos x"
    using x0 xpi pi_ge_zero by (intro cos_monotone_0_pi_le) simp_all
  then have half: "1 / 2 \<le> c" by (simp add: cos_60 c_def)
  have m: "mPerDegLng (toRad 0.005) = 2785321 / 25 * c - 187 / 2 * d"
    by (simp add: mPerDegLng_def c_def d_def x_def)
  have "\<bar>2785321 / 25 * c - 187 / 2 * d\<bar> \<le> 5575317 / 50"
    using c1 c1' d1 d1' by arith
  then show "\<bar>mPerDegLng (toRad 0.005)\<bar> \<le> 111506.34"
    unfolding m by simp
  have "50000 < \<bar>2785321 / 25 * c - 187 / 2 * d\<bar>"
    using half d1 by arith
  then show "50000 < \<bar>mPerDegLng (toRad 0.005)\<bar>"
    unfolding m by simp
qed

lemma scenario_lng_lat:
  "num_le (minDistanceToPolylineMeters 1000 \<lparr>lat = 0.005, lng = 0.0005\<rparr>
            [\<lparr>lat = 0, lng = 0\<rparr>, \<lparr>lat = 0.01, lng = 0\<rparr>]) 1000 \<and>
   \<not> num_le (minDistanceToPolylineMeters 1000 \<lparr>lat = 0.005, lng = 0.02\<rparr>
            [\<lparr>lat = 0, lng = 0\<rparr>, \<lparr>lat = 0.01, lng = 0\<rparr>]) 1000"
proof -
  have n: "distPointToSegmentMeters \<lparr>lat = 0.005, lng = 0.0005\<rparr>
            \<lparr>lat = 0, lng = 0\<rparr> \<lparr>lat = 0.01, lng = 0\<rparr> \<le> 1000"
    unfolding north_dist abs_mult using mPerDegLng_bounds(1) by simp
  have f: "1000 < distPointToSegmentMeters \<lparr>lat = 0.005, lng = 0.02\<rparr>
            \<lparr>lat = 0, lng = 0\<rparr> \<lparr>lat = 0.01, lng = 0\<rparr>"
    unfolding north_dist abs_mult using mPerDegLng_bounds(2) by simp
  show ?thesis using n f
    by (simp add: minDistanceToPolylineMeters_def minDistanceLoop.simps [of _ _ _ 0]
        minDistanceLoop.simps [of _ _ _ "Suc 0"] minStep_def Let_def)
qed

text \<open>
  Claim C6 (the two scenarios). With the route from (0, 0) to (0, 0.01) and a buffer of
  1000 m, the review at (0.0005, 0.005) is on-route (about 55 m from the route) and the
  review at (0.02, 0.005) is off-route (about 2.2 km), whichever of the two coordinates
  of a pair is read as the latitude.
\<close>

theorem scenario_classification:
  "(num_le (minDistanceToPolylineMeters 1000 \<lparr>lat = 0.0005, lng = 0.005\<rparr>
             [\<lparr>lat = 0, lng = 0\<rparr>, \<lparr>lat = 0, lng = 0.01\<rparr>]) 1000 \<and>
    \<not> num_le (minDistanceToPolylineMeters 1000 \<lparr>lat = 0.02, lng = 0.005\<rparr>
             [\<lparr>lat = 0, lng = 0\<rparr>, \<lparr>lat = 0, lng = 0.01\<rparr>]) 1000) \<and>
   (num_le (minDistanceToPolylineMeters 1000 \<lparr>lat = 0.005, lng = 0.0005\<rparr>
             [\<lparr>lat = 0, lng = 0\<rparr>, \<lparr>lat = 0.01, lng = 0\<rparr>]) 1000 \<and>
    \<not> num_le (minDistanceToPolylineMeters 1000 \<lparr>lat = 0.005, lng = 0.02\<rparr>
             [\<lparr>lat = 0, lng = 0\<rparr>, \<lparr>lat = 0.01, lng = 0\<rparr>]) 1000)"
  using scenario_lat_lng scenario_lng_lat by (rule conjI)

section \<open>Properties of the dashboard and the route filter\<close>

text \<open>What each routine leaves untouched: one lemma per routine, field by field.\<close>

lemma setStat_fields [simp]:
  "hasMap (setStat i v s) = hasMap s"
  "reviews (setStat i v s) = reviews s"
  "selectedLocation (setStat i v s) = selectedLocation s"
  "currentReviewId (setStat i v s) = currentReviewId s"
  "isReviewMode (setStat i v s) = isReviewMode s"
  "routePath (setStat i v s) = routePath s"
  "routeActive (setStat i v s) = routeActive s"
  "routeBufferMeters (setStat i v s) = routeBufferMeters s"
  "routeOverlays (setStat i v s) = routeOverlays s"
  "routeCountBadge (setStat i v s) = routeCountBadge s"
  "routeFiltered (setStat i v s) = routeFiltered s"
  "mode (setStat i v s) = mode s"
  "notifications (setStat i v s) = notifications s"
  by (simp_all add: setStat_def split: option.split)

lemma setStat_tiles:
  "tiles (setStat i v s) k = (if k = i then map_option (\<lambda>old. v) (tiles s i) else tiles s k)"
  by (simp add: setStat_def split: option.split)

lemma showNotification_fields [simp]:
  "hasMap (showNotification m t s) = hasMap s"
  "reviews (showNotification m t s) = reviews s"
  "selectedLocation (showNotification m t s) = selectedLocation s"
  "currentReviewId (showNotification m t s) = currentReviewId s"
  "isReviewMode (showNotification m t s) = isReviewMode s"
  "routePath (showNotification m t s) = routePath s"
  "routeActive (showNotification m t s) = routeActive s"
  "routeBufferMeters (showNotification m t s) = routeBufferMeters s"
  "routeOverlays (showNotification m t s) = routeOverlays s"
  "routeCountBadge (showNotification m t s) = routeCountBadge s"
  "routeFiltered (showNotification m t s) = routeFiltered s"
  "tiles (showNotification m t s) = tiles s"
  "mode (showNotification m t s) = mode s"
  by (simp_all add: showNotification_def)

lemma updateDashboardOverall_fields [simp]:
  "hasMap (updateDashboardOverall w s) = hasMap s"
  "reviews (updateDashboardOverall w s) = reviews s"
  "selectedLocation (updateDashboardOverall w s) = selectedLocation s"
  "currentReviewId (updateDashboardOverall w s) = currentReviewId s"
  "isReviewMode (updateDashboardOverall w s) = isReviewMode s"
  "routePath (updateDashboardOverall w s) = routePath s"
  "routeActive (updateDashboardOverall w s) = routeActive s"
  "routeBufferMeters (updateDashboardOverall w s) = routeBufferMeters s"
  "routeOverlays (updateDashboardOverall w s) = routeOverlays s"
  "routeCountBadge (updateDashboardOverall w s) = routeCountBadge s"
  "routeFiltered (updateDashboardOverall w s) = routeFiltered s"
  "mode (updateDashboardOverall w s) = Overall"
  "notifications (updateDashboardOverall w s) = notifications s"
  by (simp_all add: updateDashboardOverall_def Let_def)

lemma updateDashboardEmpty_fields [simp]:
  "hasMap (updateDashboardEmpty s) = hasMap s"
  "reviews (updateDashboardEmpty s) = reviews s"
  "selectedLocation (updateDashboardEmpty s) = selectedLocation s"
  "currentReviewId (updateDashboardEmpty s) = currentReviewId s"
  "isReviewMode (updateDashboardEmpty s) = isReviewMode s"
  "routePath (updateDashboardEmpty s) = routePath s"
  "routeActive (updateDashboardEmpty s) = routeActive s"
  "routeBufferMeters (updateDashboardEmpty s) = routeBufferMeters s"
  "routeOverlays (updateDashboardEmpty s) = routeOverlays s"
  "routeCountBadge (updateDashboardEmpty s) = routeCountBadge s"
  "routeFiltered (updateDashboardEmpty s) = routeFiltered s"
  "mode (updateDashboardEmpty s) = Empty"
  "notifications (updateDashboardEmpty s) = notifications s"
  by (simp_all add: updateDashboardEmpty_def)

lemma updateDashboardRouteOnly_fields [simp]:
  "hasMap (updateDashboardRouteOnly w s) = hasMap s"
  "reviews (updateDashboardRouteOnly w s) = reviews s"
  "selectedLocation (updateDashboardRouteOnly w s) = selectedLocation s"
  "currentReviewId (updateDashboardRouteOnly w s) = currentReviewId s"
  "isReviewMode (updateDashboardRouteOnly w s) = isReviewMode s"
  "routePath (updateDashboardRouteOnly w s) = routePath s"
  "routeActive (updateDashboardRouteOnly w s) = routeActive s"
  "routeBufferMeters (updateDashboardRouteOnly w s) = routeBufferMeters s"
  "routeOverlays (updateDashboardRouteOnly w s) = routeOverlays s"
  "routeFiltered (updateDashboardRouteOnly w s) = routeFiltered s"
  "mode (updateDashboardRouteOnly w s) = (if routeFiltered s = [] then Empty else RouteOnly)"
  "notifications (updateDashboardRouteOnly w s) = notifications s"
  by (simp_all add: updateDashboardRouteOnly_def Let_def)

lemma countStep_fields [simp]:
  "hasMap (countStep s r) = hasMap s"
  "reviews (countStep s r) = reviews s"
  "selectedLocation (countStep s r) = selectedLocation s"
  "currentReviewId (countStep s r) = currentReviewId s"
  "isReviewMode (countStep s r) = isReviewMode s"
  "routePath (countStep s r) = routePath s"
  "routeActive (countStep s r) = routeActive s"
  "routeBufferMeters (countStep s r) = routeBufferMeters s"
  "routeCountBadge (countStep s r) = routeCountBadge s"
  "tiles (countStep s r) = tiles s"
  "mode (countStep s r) = mode s"
  "notifications (countStep s r) = notifications s"
  by (simp_all add: countStep_def Let_def)

lemma foldl_countStep_fields [simp]:
  "hasMap (foldl countStep s rs) = hasMap s"
  "reviews (foldl countStep s rs) = reviews s"
  "selectedLocation (foldl countStep s rs) = selectedLocation s"
  "currentReviewId (foldl countStep s rs) = currentReviewId s"
  "isReviewMode (foldl countStep s rs) = isReviewMode s"
  "routePath (foldl countStep s rs) = routePath s"
  "routeActive (foldl countStep s rs) = routeActive s"
  "routeBufferMeters (foldl countStep s rs) = routeBufferMeters s"
  "routeCountBadge (foldl countStep s rs) = routeCountBadge s"
  "tiles (foldl countStep s rs) = tiles s"
  "mode (foldl countStep s rs) = mode s"
  "notifications (foldl countStep s rs) = notifications s"
  by (induction rs arbitrary: s) simp_all

text \<open>
  The loop over the reviews appends, in order, the on-route reviews to the cache and a
  halo for each of them to the overlays.
\<close>

lemma foldl_countStep_filtered:
  "routeFiltered (foldl countStep s rs) =
     routeFiltered s @ filter (onRoute (routeBufferMeters s) (routePath s)) rs"
  by (induction rs arbitrary: s) (simp_all add: countStep_def Let_def onRoute_def)

lemma foldl_countStep_overlays:
  "routeOverlays (foldl countStep s rs) =
     routeOverlays s @ map (halo (routeBufferMeters s))
       (filter (onRoute (routeBufferMeters s) (routePath s)) rs)"
  by (induction rs arbitrary: s) (simp_all add: countStep_def Let_def onRoute_def halo_def)

lemma countReviewsAlongRoute_fields [simp]:
  "hasMap (snd (countReviewsAlongRoute s)) = hasMap s"
  "reviews (snd (countReviewsAlongRoute s)) = reviews s"
  "selectedLocation (snd (countReviewsAlongRoute s)) = selectedLocation s"
  "currentReviewId (snd (countReviewsAlongRoute s)) = currentReviewId s"
  "isReviewMode (snd (countReviewsAlongRoute s)) = isReviewMode s"
  "routePath (snd (countReviewsAlongRoute s)) = routePath s"
  "routeActive (snd (countReviewsAlongRoute s)) = routeActive s"
  "routeBufferMeters (snd (countReviewsAlongRoute s)) = routeBufferMeters s"
  "routeCountBadge (snd (countReviewsAlongRoute s)) = routeCountBadge s"
  "tiles (snd (countReviewsAlongRoute s)) = tiles s"
  "mode (snd (countReviewsAlongRoute s)) = mode s"
  "notifications (snd (countReviewsAlongRoute s)) = notifications s"
  by (simp_all add: countReviewsAlongRoute_def Let_def)

lemma count_degenerate:
  "length (routePath s) < 2 \<Longrightarrow> countReviewsAlongRoute s = (0, s\<lparr>routeFiltered := []\<rparr>)"
  by (simp add: countReviewsAlongRoute_def Let_def)

text \<open>
  For a path of at least two points the cache is the on-route reviews and the halos
  are exactly theirs: the old halos are gone.
\<close>

lemma count_proper:
  assumes "2 \<le> length (routePath s)"
  shows "routeFiltered (snd (countReviewsAlongRoute s)) =
           filter (onRoute (routeBufferMeters s) (routePath s)) (reviews s)"
    and "routeOverlays (snd (countReviewsAlongRoute s)) =
           map (halo (routeBufferMeters s))
             (filter (onRoute (routeBufferMeters s) (routePath s)) (reviews s))"
    and "fst (countReviewsAlongRoute s) =
           length (filter (onRoute (routeBufferMeters s) (routePath s)) (reviews s))"
  using assms
  by (simp_all add: countReviewsAlongRoute_def Let_def foldl_countStep_filtered
        foldl_countStep_overlays)

lemma count_fst: "fst (countReviewsAlongRoute s) = length (routeFiltered (snd (countReviewsAlongRoute s)))"
  by (simp add: countReviewsAlongRoute_def Let_def)

lemma short_path_off_route: "length path < 2 \<Longrightarrow> \<not> onRoute buf path r"
  by (simp add: onRoute_def minDistanceToPolylineMeters_def minDistanceLoop.simps [of _ _ _ 0])

text \<open>
  Claim C5 (degenerate polyline). When the route path has fewer than two points, the
  filter returns the count 0 and an empty on-route cache, and no review is classified
  on-route. The model is total: this branch raises nothing.
\<close>

theorem degenerate_polyline_no_review_on_route:
  "length (routePath s) < 2 \<Longrightarrow>
     fst (countReviewsAlongRoute s) = 0 \<and>
     routeFiltered (snd (countReviewsAlongRoute s)) = [] \<and>
     filter (onRoute (routeBufferMeters s) (routePath s)) (reviews s) = []"
  by (simp add: count_degenerate short_path_off_route)

lemma tiles_overall_empty:
  "reviews s = [] \<Longrightarrow> i \<in> set statIds \<Longrightarrow>
     tiles (updateDashboardOverall w s) i = map_option (\<lambda>old. '''') (tiles s i)"
  by (auto simp: updateDashboardOverall_def statIds_def setStat_tiles)

lemma tiles_empty:
  "i \<in> set statIds \<Longrightarrow>
     tiles (updateDashboardEmpty s) i = map_option (\<lambda>old. '''') (tiles s i)"
  by (auto simp: updateDashboardEmpty_def statIds_def setStat_tiles)

lemma tiles_routeOnly_empty:
  "routeFiltered s = [] \<Longrightarrow> i \<in> set statIds \<Longrightarrow>
     tiles (updateDashboardRouteOnly w s) i = map_option (\<lambda>old. '''') (tiles s i)"
  by (simp add: updateDashboardRouteOnly_def Let_def tiles_empty)

text \<open>
  An average in doubles: 29 over 20 reviews is the double just below 1.45, and it is
  printed as 1.4.
\<close>

lemma average_29_over_20: "toFixed1 (fdiv 29 20) = ''1.4''"
proof -
  have v: "fdiv 29 20 = 6530219459687219 / 4503599627370496"
    unfolding fdiv_def
    by (rule roundDouble_scaled [where n = 52 and m = 6530219459687219])
       (simp_all add: roundHalfEven_def Let_def)
  have "toFixed1 (6530219459687219 / 4503599627370496) = ''1.4''"
    by (simp add: toFixed1_def Let_def natToString.simps digitChar_def)
  then show ?thesis by (simp only: v)
qed

text \<open>
  Claim C7 (blank, not zero). For each of the four tiles: with an empty review list the
  overall dashboard writes the empty string, and with an empty on-route cache the
  route dashboard enters the empty mode and writes the empty string. A tile that does
  not exist on the page stays absent.
\<close>

theorem blank_aggregates_on_empty_subset:
  "i \<in> set statIds \<Longrightarrow>
     (reviews s = [] \<longrightarrow>
        tiles (updateDashboardOverall weekAgo s) i = map_option (\<lambda>old. '''') (tiles s i)) \<and>
     (routeFiltered s = [] \<longrightarrow>
        mode (updateDashboardRouteOnly weekAgo s) = Empty \<and>
        tiles (updateDashboardRouteOnly weekAgo s) i = map_option (\<lambda>old. '''') (tiles s i))"
  by (simp add: tiles_overall_empty tiles_routeOnly_empty)

theorem blank_aggregates_witness:
  "''avgSafety'' \<in> set statIds \<and> reviews (initialApp dashboardPage) = [] \<and>
   routeFiltered (initialApp dashboardPage) = [] \<and>
   tiles (updateDashboardOverall 0 (initialApp dashboardPage)) ''avgSafety'' = Some '''' \<and>
   tiles (updateDashboardRouteOnly 0 (initialApp dashboardPage)) ''avgSafety'' = Some ''''"
  using blank_aggregates_on_empty_subset [of "''avgSafety''" "initialApp dashboardPage" 0]
  by (simp add: statIds_def initialApp_def dashboardPage_def)

section \<open>A run of the client\<close>

lemma nearReview_onRoute: "onRoute 1000 scenarioRoute nearReview"
  using near_dist
  by (simp add: onRoute_def scenarioRoute_def nearReview_def minDistanceToPolylineMeters_def
        minDistanceLoop.simps [of _ _ _ 0] minStep_def Let_def)

lemma reviewSubmitted_fields:
  "reviews reviewSubmitted = [nearReview]"
  "routeActive reviewSubmitted = False"
  "routePath reviewSubmitted = []"
  "routeFiltered reviewSubmitted = []"
  "routeOverlays reviewSubmitted = []"
  "routeBufferMeters reviewSubmitted = 1000"
  "mode reviewSubmitted = Overall"
  "hasMap reviewSubmitted"
  by (simp_all add: reviewSubmitted_def saveReview_def openReviewModal_def initMap_def
        initialApp_def ok_def Let_def refreshDashboard_def closeReviewModal_def)

lemma routeSearched_fields:
  "reviews routeSearched = [nearReview]"
  "routeActive routeSearched"
  "routePath routeSearched = scenarioRoute"
  "routeBufferMeters routeSearched = 1000"
  "routeFiltered routeSearched = [nearReview]"
  "routeOverlays routeSearched = [halo 1000 nearReview]"
  "mode routeSearched = RouteOnly"
  "hasMap routeSearched"
proof -
  have len: "2 \<le> length (routePath (reviewSubmitted\<lparr>routePath := scenarioRoute, routeActive := True\<rparr>))"
    by (simp add: scenarioRoute_def)
  note cp = count_proper [OF len]
  show "reviews routeSearched = [nearReview]"
    by (simp add: routeSearched_def findRoute_def Let_def split_beta reviewSubmitted_fields)
  show "routeActive routeSearched"
    by (simp add: routeSearched_def findRoute_def Let_def split_beta reviewSubmitted_fields)
  show "routePath routeSearched = scenarioRoute"
    by (simp add: routeSearched_def findRoute_def Let_def split_beta reviewSubmitted_fields)
  show "routeBufferMeters routeSearched = 1000"
    by (simp add: routeSearched_def findRoute_def Let_def split_beta reviewSubmitted_fields)
  show f: "routeFiltered routeSearched = [nearReview]"
    by (simp add: routeSearched_def findRoute_def Let_def split_beta reviewSubmitted_fields cp
          nearReview_onRoute)
  show "routeOverlays routeSearched = [halo 1000 nearReview]"
    by (simp add: routeSearched_def findRoute_def Let_def split_beta reviewSubmitted_fields cp
          nearReview_onRoute)
  show "mode routeSearched = RouteOnly"
    by (simp add: routeSearched_def findRoute_def Let_def split_beta reviewSubmitted_fields cp
          nearReview_onRoute)
  show "hasMap routeSearched"
    by (simp add: routeSearched_def findRoute_def Let_def split_beta reviewSubmitted_fields)
qed

theorem degenerate_polyline_witness:
  "length (routePath (routeSearched\<lparr>routePath := [\<lparr>lat = 5, lng = 5\<rparr>]\<rparr>)) < 2 \<and>
   fst (countReviewsAlongRoute (routeSearched\<lparr>routePath := [\<lparr>lat = 5, lng = 5\<rparr>]\<rparr>)) = 0 \<and>
   routeFiltered (snd (countReviewsAlongRoute (routeSearched\<lparr>routePath := [\<lparr>lat = 5, lng = 5\<rparr>]\<rparr>))) = []"
  using degenerate_polyline_no_review_on_route [of "routeSearched\<lparr>routePath := [\<lparr>lat = 5, lng = 5\<rparr>]\<rparr>"]
  by simp

text \<open>
  Claim C8 (stale highlight markers). After the route search of the run the halo of
  \<open>nearReview\<close> is on the map. A filter invocation with a path of one point empties
  the cache and returns before the halos are cleared, so the halo stays although no
  review is on-route; the same happens when a second route search is answered with a
  route that has no \<open>overview_path\<close>.
\<close>

theorem degenerate_route_keeps_stale_halos:
  "routeOverlays routeSearched = [halo 1000 nearReview] \<and>
   countReviewsAlongRoute (routeSearched\<lparr>routePath := [\<lparr>lat = 5, lng = 5\<rparr>]\<rparr>) =
     (0, routeSearched\<lparr>routePath := [\<lparr>lat = 5, lng = 5\<rparr>], routeFiltered := []\<rparr>) \<and>
   routeFiltered (handle 0 routeSearched
      (RouteSearch ''Origin'' ''Origin'' (RouteResponse ''OK'' None))) = [] \<and>
   routeOverlays (handle 0 routeSearched
      (RouteSearch ''Origin'' ''Origin'' (RouteResponse ''OK'' None)))
     = [halo 1000 nearReview]"
  by (simp add: routeSearched_fields findRoute_def Let_def count_degenerate)

text \<open>
  Claim C10 (store failure). When the store call of a review creation or deletion
  fails (network error or a response that is not OK), the whole client state is what
  it was, review list, on-route cache and tiles included, except for one error
  notification; when no request was made at all, nothing changes.
\<close>

theorem store_failure_only_notifies:
  "(storeFailed res \<longrightarrow>
      saveReview weekAgo res s =
        (if selectedLocation s = None then s
         else s\<lparr>notifications :=
                  notifications s @ [(''Failed to save review.'', ''error'')]\<rparr>)) \<and>
   (storeFailed res' \<longrightarrow>
      deleteReview weekAgo confirmed res' s =
        (if currentReviewId s = None \<or> \<not> confirmed then s
         else s\<lparr>notifications :=
                  notifications s @ [(''Failed to delete review.'', ''error'')]\<rparr>))"
proof -
  have save: "saveReview weekAgo res s =
        (if selectedLocation s = None then s
         else s\<lparr>notifications :=
                  notifications s @ [(''Failed to save review.'', ''error'')]\<rparr>)"
    if "storeFailed res"
    using that
    by (cases res)
      (simp_all add: storeFailed_def saveReview_def saveReviewFailed_def showNotification_def)
  have "ok 204" by (simp add: ok_def)
  then have delete: "deleteReview weekAgo confirmed res' s =
        (if currentReviewId s = None \<or> \<not> confirmed then s
         else s\<lparr>notifications :=
                  notifications s @ [(''Failed to delete review.'', ''error'')]\<rparr>)"
    if "storeFailed res'"
    using that
    by (cases res')
      (auto simp: storeFailed_def deleteReview_def deleteReviewFailed_def
         showNotification_def split: option.split)
  from save delete show ?thesis by blast
qed

theorem store_failure_witness:
  "storeFailed (Response 500 None :: review fetchResult) \<and>
   storeFailed (NetworkError :: unit fetchResult) \<and>
   reviews (saveReview 0 (Response 500 None)
       (routeSearched\<lparr>selectedLocation := Some \<lparr>lat = 1, lng = 1\<rparr>\<rparr>)) = [nearReview] \<and>
   notifications (saveReview 0 (Response 500 None)
       (routeSearched\<lparr>selectedLocation := Some \<lparr>lat = 1, lng = 1\<rparr>\<rparr>)) =
     notifications routeSearched @ [(''Failed to save review.'', ''error'')] \<and>
   routeFiltered (deleteReview 0 True NetworkError
       (routeSearched\<lparr>currentReviewId := Some ''1''\<rparr>)) = [nearReview]"
  using store_failure_only_notifies
    [of "Response 500 None" 0 "routeSearched\<lparr>selectedLocation := Some \<lparr>lat = 1, lng = 1\<rparr>\<rparr>"
        NetworkError True]
    store_failure_only_notifies
    [of "Response 500 None" 0 "routeSearched\<lparr>currentReviewId := Some ''1''\<rparr>"
        NetworkError True]
  by (simp add: storeFailed_def ok_def routeSearched_fields)

section \<open>The mode invariant\<close>

lemma modeInvariant_irrelevant [simp]:
  "modeInvariant (s\<lparr>selectedLocation := a\<rparr>) = modeInvariant s"
  "modeInvariant (s\<lparr>currentReviewId := b\<rparr>) = modeInvariant s"
  "modeInvariant (s\<lparr>isReviewMode := c\<rparr>) = modeInvariant s"
  "modeInvariant (s\<lparr>notifications := d\<rparr>) = modeInvariant s"
  "modeInvariant (s\<lparr>reviews := e\<rparr>) = modeInvariant s"
  "modeInvariant (showNotification m t s) = modeInvariant s"
  by (simp_all add: modeInvariant_def routeSet_def)

lemma modeInvariant_routeOnly:
  "routeActive s \<Longrightarrow> routePath s \<noteq> [] \<Longrightarrow> modeInvariant (updateDashboardRouteOnly w s)"
  by (simp add: modeInvariant_def routeSet_def)

lemma modeInvariant_overall:
  "modeInvariant (updateDashboardOverall w s) \<longleftrightarrow> \<not> routeSet s"
  by (auto simp: modeInvariant_def routeSet_def)

lemma modeInvariant_refresh: "modeInvariant (refreshDashboard w s)"
  by (simp add: refreshDashboard_def modeInvariant_routeOnly modeInvariant_overall routeSet_def)

text \<open>
  Every handler but the failure branch of \<open>loadReviews\<close> establishes or keeps the
  invariant (for a route answer with a non-empty path, and with the map present).
\<close>

lemma modeInvariant_findRoute_ok:
  "origin \<noteq> [] \<Longrightarrow> destination \<noteq> [] \<Longrightarrow> path \<noteq> [] \<Longrightarrow>
     modeInvariant (findRoute w origin destination (RouteResponse ''OK'' (Some path)) s)"
  by (simp add: findRoute_def Let_def split_beta modeInvariant_def routeSet_def)

lemma modeInvariant_findRoute_failed:
  "origin = [] \<or> destination = [] \<or> status \<noteq> ''OK'' \<Longrightarrow>
     modeInvariant (findRoute w origin destination (RouteResponse status path) s) = modeInvariant s"
  by (auto simp: findRoute_def)

lemma modeInvariant_clearRoute: "modeInvariant (clearRoute w s)"
  by (simp add: clearRoute_def modeInvariant_overall routeSet_def)

lemma modeInvariant_saveReview:
  "modeInvariant s \<Longrightarrow> modeInvariant (saveReview w res s)"
  by (simp add: saveReview_def saveReviewFailed_def closeReviewModal_def Let_def
        modeInvariant_refresh split: fetchResult.split option.split)

lemma modeInvariant_deleteReview:
  "modeInvariant s \<Longrightarrow> modeInvariant (deleteReview w confirmed res s)"
  by (simp add: deleteReview_def deleteReviewFailed_def closeViewModal_def Let_def
        modeInvariant_refresh split: fetchResult.split option.split)

lemma modeInvariant_loadReviews_ok:
  "hasMap s \<Longrightarrow> ok status \<Longrightarrow>
     modeInvariant (loadReviews w (Response status (Some rs)) s)"
  by (simp add: loadReviews_def Let_def modeInvariant_routeOnly modeInvariant_overall routeSet_def)

lemma loadReviews_failed:
  "res = NetworkError \<or> res = Response status None \<or> (res = Response status body \<and> \<not> ok status) \<Longrightarrow>
     loadReviews w res s = loadReviewsFailed w s"
  by (auto simp: loadReviews_def)

lemma modeInvariant_loadReviewsFailed:
  "modeInvariant (loadReviewsFailed w s) \<longleftrightarrow> \<not> routeSet s"
  by (simp add: loadReviewsFailed_def modeInvariant_overall routeSet_def)

text \<open>
  Claim C2 (mode invariant). The invariant holds after the route search of the run. When
  the pending \<open>loadReviews\<close> then fails, the handler empties the review list and shows
  the overall dashboard without looking at the route: the mode is Overall while a route
  is set, and the cache still holds the review that is no longer in the list.
\<close>

theorem failed_load_leaves_overall_with_route_set:
  "modeInvariant routeSearched \<and>
   mode (handle 0 routeSearched (ReviewLoad NetworkError)) = Overall \<and>
   routeSet (handle 0 routeSearched (ReviewLoad NetworkError)) \<and>
   reviews (handle 0 routeSearched (ReviewLoad NetworkError)) = [] \<and>
   routeFiltered (handle 0 routeSearched (ReviewLoad NetworkError)) = [nearReview] \<and>
   \<not> modeInvariant (handle 0 routeSearched (ReviewLoad NetworkError))"
  by (simp add: modeInvariant_def routeSet_def routeSearched_fields loadReviews_def
        loadReviewsFailed_def scenarioRoute_def)

section \<open>Properties of the review store gateway\<close>

text \<open>
  Claim C9, as stated, fails: the request with the empty description is answered with
  201 and the review is stored with the empty description.
\<close>

theorem empty_description_is_stored:
  "resStatus (fst (postReviews (insertRow ''7'' 0) emptyDescriptionRequest)) = 201 \<and>
   resBody (fst (postReviews (insertRow ''7'' 0) emptyDescriptionRequest)) =
     ReviewBody \<lparr>lat = 17.4, lng = 78.5, rid = ''7'', safetyRating = 3,
       infrastructureRating = 4, description = '''', address = None, timestamp = 0\<rparr>"
  by (simp add: postReviews_def emptyDescriptionRequest_def field_def insertRow_def
        orNull_def toReviewDTO_def Let_def)

text \<open>
  Claim C9, amended. The gateway answers 400 exactly when one of \<open>lat\<close>, \<open>lng\<close>,
  \<open>safetyRating\<close>, \<open>infrastructureRating\<close> is not a number or \<open>description\<close> is
  not a string, whatever the database does.
\<close>

theorem post_reviews_rejects_exactly_ill_typed:
  "(resStatus (fst (postReviews query req)) = 400) =
     (\<not> (isNumber (field req ''lat'') \<and> isNumber (field req ''lng'') \<and>
         isNumber (field req ''safetyRating'') \<and>
         isNumber (field req ''infrastructureRating'') \<and>
         isString (field req ''description'')))"
  by (auto simp: postReviews_def Let_def split: option.split)

theorem post_reviews_rejects_exactly_ill_typed_witness:
  "resStatus (fst (postReviews (insertRow ''7'' 0) [''lat'' \<mapsto> JNum 1])) = 400 \<and>
   resStatus (fst (postReviews (insertRow ''7'' 0) emptyDescriptionRequest)) \<noteq> 400"
  using post_reviews_rejects_exactly_ill_typed [of "insertRow ''7'' 0" "[''lat'' \<mapsto> JNum 1]"]
    post_reviews_rejects_exactly_ill_typed [of "insertRow ''7'' 0" emptyDescriptionRequest]
  by (simp add: field_def emptyDescriptionRequest_def)

end
